theory Spec2Isabelle
  imports Main "HOL-Library.Code_Target_Nat" "HOL-Library.List_Lexorder"
begin

section \<open>Python strings\<close>

text \<open>
  A Python \<open>str\<close> is a sequence of Unicode code points; a code point is a natural
  number.  String literals of the source that are plain ASCII are written with \<open>asc\<close>.
  Dictionary keys of the source are ASCII literals and stay Isabelle strings.
\<close>

type_synonym pystr = "nat list"

definition asc :: "string \<Rightarrow> pystr" where
  "asc s = map of_char s"

text \<open>
  Character tables of the Python runtime (Python 3.11, Unicode 14.0).  \<open>is_space\<close> is
  \<open>str.isspace\<close> of one character, the class \<open>\s\<close>.  \<open>is_digit\<close> is
  \<open>str.isdecimal\<close> of one character, the class \<open>\d\<close> of a \<open>str\<close> pattern: the
  decimal digits of every script (category Nd), given by the first and the last code
  point of each run.  \<open>to_lower\<close> is the simple lower-case mapping that the regular
  expression engine applies under \<open>re.IGNORECASE\<close>, given for the code points below
  U+0180 and for the two letter-like symbols whose lower case is there; no other code
  point is mapped to a character that the patterns of the source mention.
\<close>

definition is_space :: "nat \<Rightarrow> bool" where
  "is_space c \<longleftrightarrow> (9 \<le> c \<and> c \<le> 13) \<or> (28 \<le> c \<and> c \<le> 32) \<or> c = 133 \<or> c = 160
     \<or> c = 5760 \<or> (8192 \<le> c \<and> c \<le> 8202) \<or> c = 8232 \<or> c = 8233 \<or> c = 8239
     \<or> c = 8287 \<or> c = 12288"

definition digit_ranges :: "(nat \<times> nat) list" where
  "digit_ranges =
     [(48, 57), (1632, 1641), (1776, 1785), (1984, 1993), (2406, 2415), (2534, 2543),
      (2662, 2671), (2790, 2799), (2918, 2927), (3046, 3055), (3174, 3183), (3302, 3311),
      (3430, 3439), (3558, 3567), (3664, 3673), (3792, 3801), (3872, 3881), (4160, 4169),
      (4240, 4249), (6112, 6121), (6160, 6169), (6470, 6479), (6608, 6617), (6784, 6793),
      (6800, 6809), (6992, 7001), (7088, 7097), (7232, 7241), (7248, 7257), (42528, 42537),
      (43216, 43225), (43264, 43273), (43472, 43481), (43504, 43513), (43600, 43609),
      (44016, 44025), (65296, 65305), (66720, 66729), (68912, 68921), (69734, 69743),
      (69872, 69881), (69942, 69951), (70096, 70105), (70384, 70393), (70736, 70745),
      (70864, 70873), (71248, 71257), (71360, 71369), (71472, 71481), (71904, 71913),
      (72016, 72025), (72784, 72793), (73040, 73049), (73120, 73129), (92768, 92777),
      (92864, 92873), (93008, 93017), (120782, 120831), (123200, 123209), (123632, 123641),
      (125264, 125273), (130032, 130041)]"

definition is_digit :: "nat \<Rightarrow> bool" where
  "is_digit c \<longleftrightarrow> list_ex (\<lambda>(a, b). a \<le> c \<and> c \<le> b) digit_ranges"

definition to_lower :: "nat \<Rightarrow> nat" where
  "to_lower c =
     (if 65 \<le> c \<and> c \<le> 90 then c + 32
      else if 192 \<le> c \<and> c \<le> 222 \<and> c \<noteq> 215 then c + 32
      else if c = 304 then 105
      else if c = 376 then 255
      else if (256 \<le> c \<and> c \<le> 303 \<or> 306 \<le> c \<and> c \<le> 311 \<or> 330 \<le> c \<and> c \<le> 375) \<and> even c
        then c + 1
      else if (313 \<le> c \<and> c \<le> 328 \<or> 377 \<le> c \<and> c \<le> 382) \<and> odd c then c + 1
      else if c = 8490 then 107
      else if c = 8491 then 229
      else c)"

text \<open>
  Lower-case letters that share their upper-case letter are equivalent under
  \<open>re.IGNORECASE\<close>: dotless i with i, long s with s.
\<close>

definition ic_fixes :: "nat \<Rightarrow> nat list" where
  "ic_fixes l = (if l = 105 then [305] else if l = 115 then [383] else [])"

definition ic_eq :: "nat \<Rightarrow> nat \<Rightarrow> bool" where
  "ic_eq p c \<longleftrightarrow> (let l = to_lower p; x = to_lower c in x = l \<or> x \<in> set (ic_fixes l))"

text \<open>\<open>str.strip()\<close>, \<open>str.rstrip(',')\<close>, \<open>str.replace(c, '')\<close> for one character,
  \<open>sub in s\<close>.\<close>

definition py_strip :: "pystr \<Rightarrow> pystr" where
  "py_strip s = rev (dropWhile is_space (rev (dropWhile is_space s)))"

definition py_rstrip_chr :: "nat \<Rightarrow> pystr \<Rightarrow> pystr" where
  "py_rstrip_chr c s = rev (dropWhile (\<lambda>x. x = c) (rev s))"

definition py_remove_chr :: "nat \<Rightarrow> pystr \<Rightarrow> pystr" where
  "py_remove_chr c s = filter (\<lambda>x. x \<noteq> c) s"

fun py_contains :: "pystr \<Rightarrow> pystr \<Rightarrow> bool" where
  "py_contains sub [] = (sub = [])"
| "py_contains sub (c # s) = (take (length sub) (c # s) = sub \<or> py_contains sub s)"

text \<open>\<open>s.split(c)\<close> for a one-character separator: the pieces between the separators,
  always at least one piece.\<close>

fun py_split_by :: "(nat \<Rightarrow> bool) \<Rightarrow> pystr \<Rightarrow> pystr list" where
  "py_split_by sep [] = [[]]"
| "py_split_by sep (c # s) =
     (if sep c then [] # py_split_by sep s
      else (case py_split_by sep s of [] \<Rightarrow> [[c]] | p # ps \<Rightarrow> (c # p) # ps))"

section \<open>Regular expressions\<close>

text \<open>
  The fragment of Python's \<open>re\<close> syntax that the patterns of the source use:
  character classes (literal characters, ranges, \<open>\d\<close>, \<open>\s\<close>, negated classes),
  concatenation, alternation, the greedy quantifiers \<open>?\<close>, \<open>*\<close>, \<open>+\<close>, \<open>{n}\<close>,
  \<open>{1,2}\<close> and capturing groups.  Every \<open>*\<close> and \<open>+\<close> of the source applies to a
  single character class, so \<open>Star\<close> takes a class.
\<close>

datatype citem = CChar nat | CRange nat nat | CDigit | CSpace

datatype cset = Pos "citem list" | Neg "citem list"

datatype rx = Eps | Sym cset | Cat rx rx | Alt rx rx | Opt rx | Star cset | Grp nat rx

fun item_has :: "bool \<Rightarrow> citem \<Rightarrow> nat \<Rightarrow> bool" where
  "item_has ic (CChar p) c = (if ic then ic_eq p c else c = p)"
| "item_has ic (CRange a b) c =
     (if ic then list_ex (\<lambda>p. ic_eq p c) [a..<Suc b] else a \<le> c \<and> c \<le> b)"
| "item_has ic CDigit c = is_digit c"
| "item_has ic CSpace c = is_space c"

fun in_cset :: "bool \<Rightarrow> cset \<Rightarrow> nat \<Rightarrow> bool" where
  "in_cset ic (Pos items) c = list_ex (\<lambda>i. item_has ic i c) items"
| "in_cset ic (Neg items) c = (\<not> list_ex (\<lambda>i. item_has ic i c) items)"

text \<open>
  A backtracking matcher as a list of successes: \<open>ms ic r st\<close> lists every way \<open>r\<close>
  can match at the start of the remaining text, in the order in which the
  backtracking engine tries them (greedy: longest repetition first, left alternative
  first).  A state is the number of characters consumed so far, the remaining text and
  the groups captured so far (the most recent capture of a group first).  The flag
  \<open>ic\<close> is \<open>re.IGNORECASE\<close>.
\<close>

type_synonym mstate = "nat \<times> pystr \<times> (nat \<times> pystr) list"

fun star_ms :: "bool \<Rightarrow> cset \<Rightarrow> nat \<Rightarrow> pystr \<Rightarrow> (nat \<times> pystr) list \<Rightarrow> mstate list" where
  "star_ms ic cs n [] g = [(n, [], g)]"
| "star_ms ic cs n (c # s) g =
     (if in_cset ic cs c then star_ms ic cs (Suc n) s g @ [(n, c # s, g)]
      else [(n, c # s, g)])"

fun ms :: "bool \<Rightarrow> rx \<Rightarrow> mstate \<Rightarrow> mstate list" where
  "ms ic Eps st = [st]"
| "ms ic (Sym cs) (n, s, g) =
     (case s of [] \<Rightarrow> [] | c # t \<Rightarrow> if in_cset ic cs c then [(Suc n, t, g)] else [])"
| "ms ic (Cat a b) st = concat (map (ms ic b) (ms ic a st))"
| "ms ic (Alt a b) st = ms ic a st @ ms ic b st"
| "ms ic (Opt a) st = ms ic a st @ [st]"
| "ms ic (Star cs) (n, s, g) = star_ms ic cs n s g"
| "ms ic (Grp k a) (n, s, g) =
     map (\<lambda>(n', t, g'). (n', t, (k, take (n' - n) s) # g')) (ms ic a (n, s, g))"

text \<open>A successful match: the matched text (group 0), the text after the match and
  the groups.\<close>

type_synonym rmatch = "pystr \<times> pystr \<times> (nat \<times> pystr) list"

definition rx_match :: "bool \<Rightarrow> rx \<Rightarrow> pystr \<Rightarrow> rmatch option" where
  "rx_match ic r s =
     (case ms ic r (0, s, []) of [] \<Rightarrow> None | (n, t, g) # _ \<Rightarrow> Some (take n s, t, g))"

text \<open>\<open>m.group(k)\<close> of a group that took part in the match; \<open>re.findall\<close> reports a
  group that took no part as the empty string.\<close>

definition grp :: "rmatch \<Rightarrow> nat \<Rightarrow> pystr" where
  "grp m k = (case map_of (snd (snd m)) k of None \<Rightarrow> [] | Some t \<Rightarrow> t)"

text \<open>\<open>re.search\<close>: the match at the leftmost position where there is one.\<close>

fun re_search :: "bool \<Rightarrow> rx \<Rightarrow> pystr \<Rightarrow> rmatch option" where
  "re_search ic r [] = rx_match ic r []"
| "re_search ic r (c # s) =
     (case rx_match ic r (c # s) of Some m \<Rightarrow> Some m | None \<Rightarrow> re_search ic r s)"

text \<open>
  \<open>re.findall\<close>: the successive non-overlapping matches, left to right; the scan
  resumes where the previous match ended, one character further after an empty match.
\<close>

function re_findall :: "bool \<Rightarrow> rx \<Rightarrow> pystr \<Rightarrow> rmatch list" where
  "re_findall ic r s =
     (case rx_match ic r s of
        None \<Rightarrow> (case s of [] \<Rightarrow> [] | c # t \<Rightarrow> re_findall ic r t)
      | Some (m, t, g) \<Rightarrow>
          (if length t < length s then (m, t, g) # re_findall ic r t
           else (case s of [] \<Rightarrow> [(m, t, g)] | c # t' \<Rightarrow> (m, t, g) # re_findall ic r t')))"
  by pat_completeness auto
termination
  by (relation "measure (\<lambda>(ic, r, s). length s)") auto

text \<open>Pattern notation.\<close>

definition seq :: "rx list \<Rightarrow> rx" where
  "seq rs = foldr Cat rs Eps"

definition lit :: "string \<Rightarrow> rx" where
  "lit s = seq (map (\<lambda>c. Sym (Pos [CChar (of_char c)])) s)"

definition rx_chr :: "nat \<Rightarrow> rx" where
  "rx_chr c = Sym (Pos [CChar c])"

definition rx_plus :: "cset \<Rightarrow> rx" where
  "rx_plus cs = Cat (Sym cs) (Star cs)"

definition digit :: rx where
  "digit = Sym (Pos [CDigit])"

definition digits2 :: rx where
  "digits2 = Cat digit digit"

definition digits3 :: rx where
  "digits3 = Cat digit digits2"

definition digits4 :: rx where
  "digits4 = Cat digits2 digits2"

definition digits10 :: rx where
  "digits10 = Cat digits4 (Cat digits4 digits2)"

definition cls_space :: cset where
  "cls_space = Pos [CSpace]"

definition cls_colon_space :: cset where
  "cls_colon_space = Pos [CChar 58, CSpace]"

definition cls_not_nl :: cset where
  "cls_not_nl = Neg [CChar 10]"

definition cls_digit :: cset where
  "cls_digit = Pos [CDigit]"

section \<open>Errors and dictionaries\<close>

text \<open>The exceptions the modelled code can raise, with the data the claims need.\<close>

datatype pyerror =
    KeyError string
  | IndexError
  | ValueError string
  | FileNotFoundError
  | ExpatError
  | ServiceError

text \<open>The invoice record of the converter is a \<open>Dict\<close> from field names to strings.\<close>

type_synonym pydict = "string \<rightharpoonup> pystr"

text \<open>\<open>d[k]\<close> raises \<open>KeyError\<close> on a missing key; \<open>d.get(k, default)\<close> does not.\<close>

definition dict_item :: "pydict \<Rightarrow> string \<Rightarrow> pyerror + pystr" where
  "dict_item d k = (case d k of None \<Rightarrow> Inl (KeyError k) | Some v \<Rightarrow> Inr v)"

definition dict_get :: "pydict \<Rightarrow> string \<Rightarrow> pystr \<Rightarrow> pystr" where
  "dict_get d k dflt = (case d k of None \<Rightarrow> dflt | Some v \<Rightarrow> v)"

section \<open>The rule cascade: \<open>KSeFXMLConverter.parse_invoice_with_rules\<close>\<close>

definition init_invoice_data :: pydict where
  "init_invoice_data = map_of
     [(''seller_name'', []), (''seller_tax_no'', []), (''seller_street'', []),
      (''seller_country'', asc ''PL''), (''buyer_name'', []), (''buyer_tax_no'', []),
      (''buyer_street'', []), (''buyer_post_code'', []), (''buyer_city'', []),
      (''buyer_country'', asc ''PL''), (''currency'', asc ''PLN''), (''issue_date'', []),
      (''number'', []), (''price_net'', asc ''0.00''), (''price_tax'', asc ''0.00''),
      (''price_gross'', asc ''0.00'')]"

subsection \<open>Pattern 1: tax identifiers\<close>

definition cls_dash_space :: cset where
  "cls_dash_space = Pos [CChar 45, CSpace]"

text \<open>\<^verbatim>\<open>NIP[:\s]*(\d{3}[-\s]?\d{3}[-\s]?\d{2}[-\s]?\d{2}|\d{10})\<close>\<close>

definition nip_pattern :: rx where
  "nip_pattern = seq [lit ''NIP'', Star cls_colon_space,
     Grp 1 (Alt (seq [digits3, Opt (Sym cls_dash_space), digits3, Opt (Sym cls_dash_space),
                      digits2, Opt (Sym cls_dash_space), digits2])
                digits10)]"

text \<open>\<^verbatim>\<open>re.sub(r'[-\s]', '', s)\<close>\<close>

definition strip_nip :: "pystr \<Rightarrow> pystr" where
  "strip_nip s = filter (\<lambda>c. \<not> (c = 45 \<or> is_space c)) s"

definition nip_step :: "pystr \<Rightarrow> pydict \<Rightarrow> pydict" where
  "nip_step text d =
     (case re_findall True nip_pattern text of
        [] \<Rightarrow> d
      | [m0] \<Rightarrow> d(''seller_tax_no'' \<mapsto> strip_nip (grp m0 1))
      | m0 # m1 # _ \<Rightarrow>
          d(''seller_tax_no'' \<mapsto> strip_nip (grp m0 1), ''buyer_tax_no'' \<mapsto> strip_nip (grp m1 1)))"

subsection \<open>Pattern 2: invoice number\<close>

definition cls_num :: cset where
  "cls_num = Pos [CRange 65 90, CRange 48 57, CChar 47, CChar 45]"

definition cls_slash_dash :: cset where
  "cls_slash_dash = Pos [CChar 47, CChar 45]"

text \<open>
  \<^verbatim>\<open>INVOICE\s*#\s*(\d+)\<close>,
  \<^verbatim>\<open>Invoice\s+(?:Number|No\.?)[:\s]*(\d+)\<close>,
  \<^verbatim>\<open>Faktura\s+(?:Nr\.?|numer|VAT)?\s*[:\s]*([A-Z0-9/\-]+)\<close>,
  \<^verbatim>\<open>(?:FA|FV)[/\-](\d+[/\-]\d+[/\-]\d+)\<close>,
  \<^verbatim>\<open>Numer\s+faktury[:\s]*([A-Z0-9/\-]+)\<close>
\<close>

definition invoice_num_patterns :: "rx list" where
  "invoice_num_patterns =
     [seq [lit ''INVOICE'', Star cls_space, lit ''#'', Star cls_space, Grp 1 (rx_plus cls_digit)],
      seq [lit ''Invoice'', rx_plus cls_space,
           Alt (lit ''Number'') (seq [lit ''No'', Opt (lit ''.'')]),
           Star cls_colon_space, Grp 1 (rx_plus cls_digit)],
      seq [lit ''Faktura'', rx_plus cls_space,
           Opt (Alt (seq [lit ''Nr'', Opt (lit ''.'')]) (Alt (lit ''numer'') (lit ''VAT''))),
           Star cls_space, Star cls_colon_space, Grp 1 (rx_plus cls_num)],
      seq [Alt (lit ''FA'') (lit ''FV''), Sym cls_slash_dash,
           Grp 1 (seq [rx_plus cls_digit, Sym cls_slash_dash, rx_plus cls_digit,
                       Sym cls_slash_dash, rx_plus cls_digit])],
      seq [lit ''Numer'', rx_plus cls_space, lit ''faktury'', Star cls_colon_space,
           Grp 1 (rx_plus cls_num)]]"

text \<open>The loop \<open>for pattern in patterns: match = re.search(...); if match: ...; break\<close>:
  the first pattern of the list that matches anywhere in the text, with its match.\<close>

fun first_search :: "bool \<Rightarrow> rx list \<Rightarrow> pystr \<Rightarrow> (rx \<times> rmatch) option" where
  "first_search ic [] text = None"
| "first_search ic (r # rs) text =
     (case re_search ic r text of Some m \<Rightarrow> Some (r, m) | None \<Rightarrow> first_search ic rs text)"

text \<open>\<open>len(match.groups())\<close>: the number of capturing groups of the pattern.\<close>

fun ngroups :: "rx \<Rightarrow> nat" where
  "ngroups Eps = 0"
| "ngroups (Sym cs) = 0"
| "ngroups (Cat a b) = ngroups a + ngroups b"
| "ngroups (Alt a b) = ngroups a + ngroups b"
| "ngroups (Opt a) = ngroups a"
| "ngroups (Star cs) = 0"
| "ngroups (Grp k a) = Suc (ngroups a)"

definition number_step :: "pystr \<Rightarrow> pydict \<Rightarrow> pydict" where
  "number_step text d =
     (case first_search True invoice_num_patterns text of
        None \<Rightarrow> d
      | Some (r, m) \<Rightarrow> d(''number'' \<mapsto> (if ngroups r = 1 then grp m 1 else fst m)))"

subsection \<open>Pattern 3: dates\<close>

definition cls_alpha :: cset where
  "cls_alpha = Pos [CRange 65 90, CRange 97 122]"

definition cls_comma_space :: cset where
  "cls_comma_space = Pos [CChar 44, CSpace]"

definition cls_date_sep :: cset where
  "cls_date_sep = Pos [CChar 45, CChar 47, CChar 46]"

definition rx_named_date :: rx where
  "rx_named_date = seq [Grp 1 (Cat digit (Opt digit)), rx_plus cls_space,
     Grp 2 (rx_plus cls_alpha), rx_plus cls_comma_space, Grp 3 digits4]"

definition rx_ymd :: rx where
  "rx_ymd = seq [digits4, lit ''-'', digits2, lit ''-'', digits2]"

definition rx_dmy :: rx where
  "rx_dmy = seq [digits2, Sym cls_date_sep, digits2, Sym cls_date_sep, digits4]"

text \<open>The words \<open>Data wystawienia\<close> and \<open>Data sprzeda\<dots>y\<close> (U+017C in the latter), each
  followed by \<^verbatim>\<open>[:\s]*\<close>.\<close>

definition rx_data_wystawienia :: rx where
  "rx_data_wystawienia = seq [lit ''Data'', rx_plus cls_space, lit ''wystawienia'',
     Star cls_colon_space]"

definition rx_data_sprzedazy :: rx where
  "rx_data_sprzedazy = seq [lit ''Data'', rx_plus cls_space, lit ''sprzeda'', rx_chr 380,
     lit ''y'', Star cls_colon_space]"

text \<open>
  \<^verbatim>\<open>DATE[:\s]*(\d{1,2})\s+([A-Za-z]+)[,\s]+(\d{4})\<close>,
  \<^verbatim>\<open>(?:Invoice\s+)?Date[:\s]*(\d{1,2})\s+([A-Za-z]+)[,\s]+(\d{4})\<close>,
  \<^verbatim>\<open>Data\s+wystawienia[:\s]*(\d{4}-\d{2}-\d{2})\<close>,
  \<^verbatim>\<open>Data\s+wystawienia[:\s]*(\d{2}[-/.]\d{2}[-/.]\d{4})\<close>,
  and the last two again for \<open>Data sprzeda\<dots>y\<close>.
\<close>

definition date_patterns :: "rx list" where
  "date_patterns =
     [seq [lit ''DATE'', Star cls_colon_space, rx_named_date],
      seq [Opt (seq [lit ''Invoice'', rx_plus cls_space]), lit ''Date'', Star cls_colon_space,
           rx_named_date],
      seq [rx_data_wystawienia, Grp 1 rx_ymd],
      seq [rx_data_wystawienia, Grp 1 rx_dmy],
      seq [rx_data_sprzedazy, Grp 1 rx_ymd],
      seq [rx_data_sprzedazy, Grp 1 rx_dmy]]"

definition month_names :: "(pystr \<times> pystr) list" where
  "month_names =
     [(asc ''january'', asc ''01''), (asc ''february'', asc ''02''), (asc ''march'', asc ''03''),
      (asc ''april'', asc ''04''), (asc ''may'', asc ''05''), (asc ''june'', asc ''06''),
      (asc ''july'', asc ''07''), (asc ''august'', asc ''08''), (asc ''september'', asc ''09''),
      (asc ''october'', asc ''10''), (asc ''november'', asc ''11''), (asc ''december'', asc ''12'')]"

text \<open>\<open>str.lower()\<close>; the capital dotted I (U+0130) lower-cases to two code points.\<close>

definition str_lower :: "pystr \<Rightarrow> pystr" where
  "str_lower s = concat (map (\<lambda>c. if c = 304 then [105, 775] else [to_lower c]) s)"

text \<open>\<open>str.zfill(width)\<close>: zeros on the left, after a leading sign.\<close>

definition zfill :: "nat \<Rightarrow> pystr \<Rightarrow> pystr" where
  "zfill w s =
     (if w \<le> length s then s
      else (case s of
              c # t \<Rightarrow> if c = 43 \<or> c = 45 then c # replicate (w - length s) 48 @ t
                       else replicate (w - length s) 48 @ s
            | [] \<Rightarrow> replicate w 48))"

definition date_of_match :: "rx \<Rightarrow> rmatch \<Rightarrow> pyerror + pystr" where
  "date_of_match r m =
     (if ngroups r = 3 then
        (let day = grp m 1; month_name = grp m 2; year = grp m 3;
             month = (case map_of month_names (str_lower month_name) of
                        None \<Rightarrow> asc ''01'' | Some v \<Rightarrow> v)
         in Inr (year @ asc ''-'' @ month @ asc ''-'' @ zfill 2 day))
      else
        (let date_str = grp m 1 in
         (case rx_match False rx_dmy date_str of
            None \<Rightarrow> Inr date_str
          | Some _ \<Rightarrow>
              (case py_split_by (in_cset False cls_date_sep) date_str of
                 p0 # p1 # p2 # _ \<Rightarrow> Inr (p2 @ asc ''-'' @ p1 @ asc ''-'' @ p0)
               | _ \<Rightarrow> Inl IndexError))))"

definition date_step :: "pystr \<Rightarrow> pydict \<Rightarrow> pyerror + pydict" where
  "date_step text d =
     (case first_search True date_patterns text of
        None \<Rightarrow> Inr d
      | Some (r, m) \<Rightarrow>
          (case date_of_match r m of
             Inl e \<Rightarrow> Inl e
           | Inr date_str \<Rightarrow> Inr (d(''issue_date'' \<mapsto> date_str))))"

subsection \<open>Pattern 4: amounts\<close>

definition cls_amount :: cset where
  "cls_amount = Pos [CDigit, CChar 44, CSpace]"

text \<open>\<^verbatim>\<open>([\d,\s]+(?:\.\d{2})?)\s*z\<close> followed by U+0142, the tail of the three
  English patterns.\<close>

definition rx_amount_zl :: rx where
  "rx_amount_zl = seq [Grp 1 (seq [rx_plus cls_amount, Opt (seq [lit ''.'', digits2])]),
     Star cls_space, lit ''z'', rx_chr 322]"

text \<open>\<^verbatim>\<open>(?:Warto\<dots>\s+)?\<close> with U+015B and U+0107 for the last two letters.\<close>

definition rx_wartosc_opt :: rx where
  "rx_wartosc_opt = Opt (seq [lit ''Warto'', rx_chr 347, rx_chr 263, rx_plus cls_space])"

text \<open>
  \<^verbatim>\<open>SUBTOTAL[:\s]*([\d,\s]+(?:\.\d{2})?)\s*zl\<close>,
  \<^verbatim>\<open>VAT\s+\d+%[:\s]*(?:EUR\s+)?([\d,\s]+(?:\.\d{2})?)\s*zl\<close>,
  \<^verbatim>\<open>TOTAL[:\s]*([\d,\s]+(?:\.\d{2})?)\s*zl\<close>,
  \<^verbatim>\<open>(?:Wartosc\s+)?[Nn]etto[:\s]*([\d,\s]+)\<close>,
  \<^verbatim>\<open>(?:Wartosc\s+)?VAT[:\s]*([\d,\s]+)\<close>,
  \<^verbatim>\<open>(?:Wartosc\s+)?[Bb]rutto[:\s]*([\d,\s]+)\<close>,
  \<^verbatim>\<open>Razem[:\s]*([\d,\s]+)\<close>,
  \<^verbatim>\<open>Do\s+zaplaty[:\s]*([\d,\s]+)\<close>
  (the Polish letters are written here without their diacritics; the definitions
  carry the code points of the source).
\<close>

definition amount_patterns :: "(rx \<times> string) list" where
  "amount_patterns =
     [(seq [lit ''SUBTOTAL'', Star cls_colon_space, rx_amount_zl], ''price_net''),
      (seq [lit ''VAT'', rx_plus cls_space, rx_plus cls_digit, lit ''%'', Star cls_colon_space,
            Opt (seq [lit ''EUR'', rx_plus cls_space]), rx_amount_zl], ''price_tax''),
      (seq [lit ''TOTAL'', Star cls_colon_space, rx_amount_zl], ''price_gross''),
      (seq [rx_wartosc_opt, Sym (Pos [CChar 78, CChar 110]), lit ''etto'', Star cls_colon_space,
            Grp 1 (rx_plus cls_amount)], ''price_net''),
      (seq [rx_wartosc_opt, lit ''VAT'', Star cls_colon_space, Grp 1 (rx_plus cls_amount)],
       ''price_tax''),
      (seq [rx_wartosc_opt, Sym (Pos [CChar 66, CChar 98]), lit ''rutto'', Star cls_colon_space,
            Grp 1 (rx_plus cls_amount)], ''price_gross''),
      (seq [lit ''Razem'', Star cls_colon_space, Grp 1 (rx_plus cls_amount)], ''price_gross''),
      (seq [lit ''Do'', rx_plus cls_space, lit ''zap'', rx_chr 322, lit ''aty'',
            Star cls_colon_space, Grp 1 (rx_plus cls_amount)], ''price_gross'')]"

text \<open>
  The body of the loop over a non-empty list of matches: spaces and commas are removed
  from the last match; without a decimal point \<open>.00\<close> is appended; with one, the text
  is kept when two characters follow the last point and otherwise the points are
  removed and \<open>.00\<close> appended.
\<close>

definition normalize_amount :: "pystr \<Rightarrow> pystr" where
  "normalize_amount m =
     (let amount = py_remove_chr 44 (py_remove_chr 32 m) in
      if 46 \<in> set amount then
        (let parts = py_split_by (\<lambda>c. c = 46) amount in
         if length (last parts) = 2 then amount else py_remove_chr 46 amount @ asc ''.00'')
      else amount @ asc ''.00'')"

definition amount_one :: "pystr \<Rightarrow> pydict \<Rightarrow> rx \<times> string \<Rightarrow> pydict" where
  "amount_one text d pf =
     (case re_findall True (fst pf) text of
        [] \<Rightarrow> d
      | m # rest \<Rightarrow> d(snd pf \<mapsto> normalize_amount (grp (last (m # rest)) 1)))"

definition amount_step :: "pystr \<Rightarrow> pydict \<Rightarrow> pydict" where
  "amount_step text d = foldl (amount_one text) d amount_patterns"

subsection \<open>Pattern 5: company names\<close>

text \<open>
  \<^verbatim>\<open>Sprzedawca[:\s]*\n([^\n]+)\<close>,
  \<^verbatim>\<open>INVOICE\s*\n([^\n]+)\s*\n([^\n]+street[^\n]*)\<close>,
  \<^verbatim>\<open>Nabywca[:\s]*\n([^\n]+)\<close>,
  \<^verbatim>\<open>Bill\s+To[:\s]*([^\n]+)\<close>
\<close>

definition rx_nl :: rx where
  "rx_nl = rx_chr 10"

definition rx_seller_section :: rx where
  "rx_seller_section = seq [lit ''Sprzedawca'', Star cls_colon_space, rx_nl,
     Grp 1 (rx_plus cls_not_nl)]"

definition rx_seller_eng :: rx where
  "rx_seller_eng = seq [lit ''INVOICE'', Star cls_space, rx_nl, Grp 1 (rx_plus cls_not_nl),
     Star cls_space, rx_nl, Grp 2 (seq [rx_plus cls_not_nl, lit ''street'', Star cls_not_nl])]"

definition rx_buyer_section :: rx where
  "rx_buyer_section = seq [lit ''Nabywca'', Star cls_colon_space, rx_nl,
     Grp 1 (rx_plus cls_not_nl)]"

definition rx_buyer_eng :: rx where
  "rx_buyer_eng = seq [lit ''Bill'', rx_plus cls_space, lit ''To'', Star cls_colon_space,
     Grp 1 (rx_plus cls_not_nl)]"

text \<open>A string field is tested with \<open>not invoice_data[k]\<close>: true when it is empty.  The
  keys tested are set by the initial record, so the lookups cannot fail.\<close>

definition field_empty :: "pydict \<Rightarrow> string \<Rightarrow> bool" where
  "field_empty d k = (dict_get d k [] = [])"

text \<open>The four statements of the step, in the order of the source.\<close>

definition seller_name_pl :: "pystr \<Rightarrow> pydict \<Rightarrow> pydict" where
  "seller_name_pl text d =
     (case re_search True rx_seller_section text of
        None \<Rightarrow> d
      | Some m \<Rightarrow> d(''seller_name'' \<mapsto> py_strip (grp m 1)))"

definition seller_name_eng :: "pystr \<Rightarrow> pydict \<Rightarrow> pydict" where
  "seller_name_eng text d =
     (if field_empty d ''seller_name'' then
        (case re_search True rx_seller_eng text of
           None \<Rightarrow> d
         | Some m \<Rightarrow> d(''seller_name'' \<mapsto> py_strip (grp m 1),
                        ''seller_street'' \<mapsto> py_strip (grp m 2)))
      else d)"

definition buyer_name_pl :: "pystr \<Rightarrow> pydict \<Rightarrow> pydict" where
  "buyer_name_pl text d =
     (case re_search True rx_buyer_section text of
        None \<Rightarrow> d
      | Some m \<Rightarrow> d(''buyer_name'' \<mapsto> py_strip (grp m 1)))"

definition buyer_name_eng :: "pystr \<Rightarrow> pydict \<Rightarrow> pydict" where
  "buyer_name_eng text d =
     (if field_empty d ''buyer_name'' then
        (case re_search True rx_buyer_eng text of
           None \<Rightarrow> d
         | Some m \<Rightarrow> d(''buyer_name'' \<mapsto> py_strip (grp m 1)))
      else d)"

definition names_step :: "pystr \<Rightarrow> pydict \<Rightarrow> pydict" where
  "names_step text d =
     buyer_name_eng text (buyer_name_pl text (seller_name_eng text (seller_name_pl text d)))"

subsection \<open>Pattern 6: addresses\<close>

definition cls_polish_alpha_items :: "citem list" where
  "cls_polish_alpha_items =
     [CRange 65 90, CChar 260, CChar 262, CChar 280, CChar 321, CChar 323, CChar 211,
      CChar 346, CChar 377, CChar 379, CRange 97 122, CChar 261, CChar 263, CChar 281,
      CChar 322, CChar 324, CChar 243, CChar 347, CChar 378, CChar 380]"

text \<open>
  \<^verbatim>\<open>(?:ul\.|al\.|pl\.)\s+([^\n,]+)\<close>,
  \<^verbatim>\<open>([A-Za-z...]+\s+street[^,\n]+)\<close> over the Latin and the Polish letters,
  \<^verbatim>\<open>Bill\s+To[^\n]*\n[^\n]+\n([^\n]+)\<close>
\<close>

definition street_pattern :: rx where
  "street_pattern = seq [Alt (lit ''ul.'') (Alt (lit ''al.'') (lit ''pl.'')), rx_plus cls_space,
     Grp 1 (rx_plus (Neg [CChar 10, CChar 44]))]"

definition rx_seller_street_eng :: rx where
  "rx_seller_street_eng = Grp 1 (seq [rx_plus (Pos cls_polish_alpha_items), rx_plus cls_space,
     lit ''street'', rx_plus (Neg [CChar 44, CChar 10])])"

definition rx_buyer_street_eng :: rx where
  "rx_buyer_street_eng = seq [lit ''Bill'', rx_plus cls_space, lit ''To'', Star cls_not_nl, rx_nl,
     rx_plus cls_not_nl, rx_nl, Grp 1 (rx_plus cls_not_nl)]"

definition streets_pl :: "pystr \<Rightarrow> pydict \<Rightarrow> pydict" where
  "streets_pl text d =
     (case re_findall True street_pattern text of
        [] \<Rightarrow> d
      | [m0] \<Rightarrow> if field_empty d ''seller_street''
                then d(''seller_street'' \<mapsto> py_strip (grp m0 1)) else d
      | m0 # m1 # _ \<Rightarrow> d(''seller_street'' \<mapsto> py_strip (grp m0 1),
                            ''buyer_street'' \<mapsto> py_strip (grp m1 1)))"

definition seller_street_eng :: "pystr \<Rightarrow> pydict \<Rightarrow> pydict" where
  "seller_street_eng text d =
     (if field_empty d ''seller_street'' then
        (case re_search True rx_seller_street_eng text of
           None \<Rightarrow> d
         | Some m \<Rightarrow> d(''seller_street'' \<mapsto> py_strip (grp m 1)))
      else d)"

definition buyer_street_eng :: "pystr \<Rightarrow> pydict \<Rightarrow> pydict" where
  "buyer_street_eng text d =
     (if field_empty d ''buyer_street'' then
        (case re_search True rx_buyer_street_eng text of
           None \<Rightarrow> d
         | Some m \<Rightarrow> d(''buyer_street'' \<mapsto> py_strip (grp m 1)))
      else d)"

definition address_step :: "pystr \<Rightarrow> pydict \<Rightarrow> pydict" where
  "address_step text d = buyer_street_eng text (seller_street_eng text (streets_pl text d))"

subsection \<open>Pattern 7: postal code and city\<close>

text \<open>\<^verbatim>\<open>(\d{2}-\d{3})[,\s]+([A-Za-z...\s]+)\<close> over the Latin and the Polish letters,
  matched without \<open>re.IGNORECASE\<close>.\<close>

definition postal_pattern :: rx where
  "postal_pattern = seq [Grp 1 (seq [digits2, lit ''-'', digits3]), rx_plus cls_comma_space,
     Grp 2 (rx_plus (Pos (cls_polish_alpha_items @ [CSpace])))]"

definition postal_step :: "pystr \<Rightarrow> pydict \<Rightarrow> pydict" where
  "postal_step text d =
     (case re_findall False postal_pattern text of
        [] \<Rightarrow> d
      | [m0] \<Rightarrow>
          if py_contains (asc ''Bill To'') text \<or> field_empty d ''buyer_post_code''
          then d(''buyer_post_code'' \<mapsto> grp m0 1,
                 ''buyer_city'' \<mapsto> py_rstrip_chr 44 (py_strip (grp m0 2)))
          else d
      | m0 # m1 # _ \<Rightarrow>
          d(''buyer_post_code'' \<mapsto> grp m1 1,
            ''buyer_city'' \<mapsto> py_rstrip_chr 44 (py_strip (grp m1 2))))"

subsection \<open>The cascade and the completeness gate\<close>

definition rule_cascade :: "pystr \<Rightarrow> pyerror + pydict" where
  "rule_cascade text =
     (case date_step text (number_step text (nip_step text init_invoice_data)) of
        Inl e \<Rightarrow> Inl e
      | Inr d \<Rightarrow> Inr (postal_step text (address_step text (names_step text (amount_step text d)))))"

definition required_fields :: "string list" where
  "required_fields = [''seller_name'', ''seller_tax_no'', ''buyer_name'', ''buyer_tax_no'',
     ''number'', ''issue_date'', ''price_net'', ''price_tax'', ''price_gross'']"

text \<open>\<open>not invoice_data.get(field) or invoice_data[field] == '0.00'\<close>\<close>

definition field_missing :: "pydict \<Rightarrow> string \<Rightarrow> bool" where
  "field_missing d field \<longleftrightarrow>
     (case d field of None \<Rightarrow> True | Some v \<Rightarrow> v = [] \<or> v = asc ''0.00'')"

definition missing_fields :: "pydict \<Rightarrow> string list" where
  "missing_fields d = filter (field_missing d) required_fields"

definition parse_invoice_with_rules :: "pystr \<Rightarrow> pyerror + (pydict \<times> bool)" where
  "parse_invoice_with_rules text =
     (case rule_cascade text of
        Inl e \<Rightarrow> Inl e
      | Inr d \<Rightarrow> if missing_fields d \<noteq> [] then Inr (d, False) else Inr (d, True))"

text \<open>What the caller reads off the result: one field of the record the cascade built,
  and the success flag.\<close>

definition cascade_field :: "pystr \<Rightarrow> string \<Rightarrow> pystr option" where
  "cascade_field text k = (case rule_cascade text of Inl e \<Rightarrow> None | Inr d \<Rightarrow> d k)"

definition parse_ok :: "pystr \<Rightarrow> bool option" where
  "parse_ok text =
     (case parse_invoice_with_rules text of Inl e \<Rightarrow> None | Inr (d, ok) \<Rightarrow> Some ok)"

text \<open>Two invoice texts used as test inputs: a complete one, and the same with the
  line \<open>0.00\<close> as the name of the seller.\<close>

definition complete_text :: pystr where
  "complete_text = asc ''Sprzedawca'' @ [10] @ asc ''A'' @ [10] @ asc ''Nabywca'' @ [10] @ asc ''B''
     @ [10] @ asc ''NIP1111111111NIP2222222222 FA/1/2/3 DATE 1 May 2024 Netto 1 VAT 2 Razem 3''"

definition seller_zero_text :: pystr where
  "seller_zero_text = asc ''Sprzedawca'' @ [10] @ asc ''0.00'' @ [10] @ asc ''Nabywca'' @ [10]
     @ asc ''B'' @ [10]
     @ asc ''NIP1111111111NIP2222222222 FA/1/2/3 DATE 1 May 2024 Netto 1 VAT 2 Razem 3''"

section \<open>The XML encoder: \<open>KSeFXMLConverter.convert_to_ksef_xml\<close>\<close>

text \<open>
  What the encoder and the orchestration read and write outside their arguments: the
  wall clock (the string that \<open>datetime.now().strftime(...)\<close> returns while the clock
  is held), the namespace registry of \<open>xml.etree.ElementTree\<close> (a dictionary from
  namespace URI to prefix, in insertion order), the files written and the calls made to
  the collaborators, in order.
\<close>

datatype event = CallRules | CallAI | CallValidate | CallWrite pystr

record world =
  clock :: pystr
  ns_map :: "(pystr \<times> pystr) list"
  files :: "pystr \<rightharpoonup> pystr"
  calls :: "event list"

definition log_call :: "event \<Rightarrow> world \<Rightarrow> world" where
  "log_call e w = w\<lparr>calls := calls w @ [e]\<rparr>"

definition bind_err :: "pyerror + 'a \<Rightarrow> ('a \<Rightarrow> pyerror + 'b) \<Rightarrow> pyerror + 'b" where
  "bind_err r f = (case r of Inl e \<Rightarrow> Inl e | Inr v \<Rightarrow> f v)"

subsection \<open>The element tree\<close>

text \<open>A tag or attribute name is either qual_name by a namespace URI (\<open>{uri}local\<close>) or
  plain.  An element has a name, attributes in insertion order, a text and children.\<close>

datatype qname = QN pystr pystr | Plain pystr

datatype xelem = XElem qname "(qname \<times> pystr) list" pystr "xelem list"

definition namespace :: pystr where
  "namespace = asc ''http://crd.gov.pl/wzor/2023/06/29/12648/''"

definition namespace_xsi :: pystr where
  "namespace_xsi = asc ''http://www.w3.org/2001/XMLSchema-instance''"

definition namespace_xsd :: pystr where
  "namespace_xsd = asc ''http://www.w3.org/2001/XMLSchema''"

text \<open>\<open>ET.register_namespace(prefix, uri)\<close>: entries with the same URI or the same prefix
  are deleted, then the new entry is added.  (It raises for prefixes of the form
  \<open>ns\<close> followed by digits; the three prefixes of the source are not of that form.)\<close>

definition register_namespace :: "pystr \<Rightarrow> pystr \<Rightarrow> (pystr \<times> pystr) list \<Rightarrow> (pystr \<times> pystr) list" where
  "register_namespace prefix uri m = filter (\<lambda>(k, v). k \<noteq> uri \<and> v \<noteq> prefix) m @ [(uri, prefix)]"

text \<open>A leaf element of the KSeF namespace with a text, and an inner element.\<close>

definition leaf :: "string \<Rightarrow> pystr \<Rightarrow> xelem" where
  "leaf name text = XElem (QN namespace (asc name)) [] text []"

definition node :: "string \<Rightarrow> xelem list \<Rightarrow> xelem" where
  "node name children = XElem (QN namespace (asc name)) [] [] children"

text \<open>The schema variant of the converter object: \<open>Literal['FA2', 'FA3']\<close>;
  \<open>variant_number\<close> is \<open>schema_type[-1]\<close>.\<close>

datatype schema_type = FA2 | FA3

fun variant_number :: "schema_type \<Rightarrow> pystr" where
  "variant_number FA2 = asc ''2''"
| "variant_number FA3 = asc ''3''"

text \<open>
  The tree the encoder builds, in the order of the source.  \<open>invoice_data[k]\<close> raises
  \<open>KeyError\<close>, \<open>invoice_data.get(k, 'PL')\<close> does not.  The first argument is the
  variant number, the second the creation timestamp read from the clock.
\<close>

definition build_faktura :: "pystr \<Rightarrow> pystr \<Rightarrow> pydict \<Rightarrow> pyerror + xelem" where
  "build_faktura variant now d =
     bind_err (dict_item d ''seller_tax_no'') (\<lambda>seller_tax_no.
     bind_err (dict_item d ''seller_name'') (\<lambda>seller_name.
     bind_err (Inr (dict_get d ''seller_country'' (asc ''PL''))) (\<lambda>seller_country.
     bind_err (dict_item d ''seller_street'') (\<lambda>seller_street.
     bind_err (dict_item d ''buyer_tax_no'') (\<lambda>buyer_tax_no.
     bind_err (dict_item d ''buyer_name'') (\<lambda>buyer_name.
     bind_err (Inr (dict_get d ''buyer_country'' (asc ''PL''))) (\<lambda>buyer_country.
     bind_err (dict_item d ''buyer_street'') (\<lambda>buyer_street.
     bind_err (dict_item d ''buyer_post_code'') (\<lambda>buyer_post_code.
     bind_err (dict_item d ''buyer_city'') (\<lambda>buyer_city.
     bind_err (dict_item d ''currency'') (\<lambda>currency.
     bind_err (dict_item d ''issue_date'') (\<lambda>issue_date.
     bind_err (dict_item d ''number'') (\<lambda>number.
     bind_err (dict_item d ''price_net'') (\<lambda>price_net.
     bind_err (dict_item d ''price_tax'') (\<lambda>price_tax.
     bind_err (dict_item d ''price_gross'') (\<lambda>price_gross.
     Inr (XElem (QN namespace (asc ''Faktura''))
       [(QN namespace_xsi (asc ''schemaLocation''),
         namespace @ asc '' http://crd.gov.pl/wzor/2023/06/29/12648/schemat.xsd'')] []
       [node ''Naglowek''
          [XElem (QN namespace (asc ''KodFormularza''))
             [(Plain (asc ''kodSystemowy''), asc ''FA ('' @ variant @ asc '')''),
              (Plain (asc ''wersjaSchemy''), asc ''1-0E'')] (asc ''FA'') [],
           leaf ''WariantFormularza'' variant,
           leaf ''DataWytworzeniaFa'' now],
        node ''Podmiot1''
          [node ''DaneIdentyfikacyjne'' [leaf ''NIP'' seller_tax_no, leaf ''Nazwa'' seller_name],
           node ''Adres'' [leaf ''KodKraju'' seller_country, leaf ''AdresL1'' seller_street]],
        node ''Podmiot2''
          [node ''DaneIdentyfikacyjne'' [leaf ''NIP'' buyer_tax_no, leaf ''Nazwa'' buyer_name],
           node ''Adres''
             [leaf ''KodKraju'' buyer_country,
              leaf ''AdresL1'' (buyer_street @ asc '', '' @ buyer_post_code @ asc '' '' @ buyer_city)]],
        node ''Fa''
          [leaf ''KodWaluty'' currency, leaf ''P_1'' issue_date, leaf ''P_2'' number,
           leaf ''P_13_1'' price_net, leaf ''P_14_1'' price_tax, leaf ''P_15'' price_gross,
           node ''Adnotacje''
             [leaf ''P_16'' (asc ''2''), leaf ''P_17'' (asc ''2''), leaf ''P_18'' (asc ''2''),
              leaf ''P_18A'' (asc ''2''),
              node ''Zwolnienie'' [leaf ''P_19N'' (asc ''1'')],
              node ''NoweSrodkiTransportu'' [leaf ''P_22N'' (asc ''1'')],
              leaf ''P_23'' (asc ''2''),
              node ''PMarzy'' [leaf ''P_PMarzyN'' (asc ''1'')]],
           leaf ''RodzajFaktury'' (asc ''VAT'')]])))))))))))))))))"

subsection \<open>Serialization: \<open>ET.tostring\<close>, \<open>minidom.parseString\<close>, \<open>toprettyxml\<close>\<close>

text \<open>
  \<open>ET.tostring\<close> gives every namespace URI of the tree a prefix: the registered one, or
  \<open>ns0\<close>, \<open>ns1\<close>, \dots for an unregistered URI, in the order in which the URIs
  first occur.  The empty prefix makes the names of that namespace unprefixed.
\<close>

fun digit_chars :: "nat \<Rightarrow> nat \<Rightarrow> pystr" where
  "digit_chars 0 n = []"
| "digit_chars (Suc fuel) n =
     (if n < 10 then [48 + n] else digit_chars fuel (n div 10) @ [48 + n mod 10])"

definition nat_str :: "nat \<Rightarrow> pystr" where
  "nat_str n = digit_chars (Suc n) n"

definition prefix_of :: "(pystr \<times> pystr) list \<Rightarrow> (pystr \<times> pystr) list \<Rightarrow> pystr \<Rightarrow> (pystr \<times> pystr) list" where
  "prefix_of reg found uri =
     (case map_of found uri of
        Some p \<Rightarrow> found
      | None \<Rightarrow> (case map_of reg uri of
                   Some p \<Rightarrow> found @ [(uri, p)]
                 | None \<Rightarrow> found @ [(uri, asc ''ns'' @ nat_str (length found))]))"

fun qname_uris :: "qname \<Rightarrow> pystr list" where
  "qname_uris (QN uri l) = [uri]"
| "qname_uris (Plain l) = []"

fun elem_uris :: "xelem \<Rightarrow> pystr list" where
  "elem_uris (XElem q attrs text children) =
     qname_uris q @ concat (map (\<lambda>(k, v). qname_uris k) attrs) @ concat (map elem_uris children)"

definition namespaces_of :: "(pystr \<times> pystr) list \<Rightarrow> xelem \<Rightarrow> (pystr \<times> pystr) list" where
  "namespaces_of reg root = foldl (prefix_of reg) [] (elem_uris root)"

definition qual_name :: "(pystr \<times> pystr) list \<Rightarrow> qname \<Rightarrow> pystr" where
  "qual_name nss q =
     (case q of
        Plain l \<Rightarrow> l
      | QN uri l \<Rightarrow> (case map_of nss uri of
                       None \<Rightarrow> l
                     | Some p \<Rightarrow> if p = [] then l else p @ asc '':'' @ l))"

text \<open>
  The document that \<open>minidom.parseString\<close> builds from the serialized tree: names as
  written, and on the root the namespace declarations first.  The parser turns
  \<open>\r\n\<close> and \<open>\r\<close> into \<open>\n\<close>; it rejects a character that XML 1.0 does not
  allow (\<open>ExpatError\<close>).
\<close>

datatype delem = DElem pystr "(pystr \<times> pystr) list" pystr "delem list"

fun resolve :: "(pystr \<times> pystr) list \<Rightarrow> xelem \<Rightarrow> delem" where
  "resolve nss (XElem q attrs text children) =
     DElem (qual_name nss q) (map (\<lambda>(k, v). (qual_name nss k, v)) attrs) text
       (map (resolve nss) children)"

definition xmlns_attr :: "pystr \<times> pystr \<Rightarrow> pystr \<times> pystr" where
  "xmlns_attr up = (if snd up = [] then asc ''xmlns'' else asc ''xmlns:'' @ snd up, fst up)"

definition xml_char_ok :: "nat \<Rightarrow> bool" where
  "xml_char_ok c \<longleftrightarrow> c = 9 \<or> c = 10 \<or> c = 13 \<or> (32 \<le> c \<and> c \<le> 55295)
     \<or> (57344 \<le> c \<and> c \<le> 65533) \<or> (65536 \<le> c \<and> c \<le> 1114111)"

fun elem_texts :: "delem \<Rightarrow> pystr list" where
  "elem_texts (DElem name attrs text children) =
     text # map snd attrs @ concat (map elem_texts children)"

fun xml_newlines :: "pystr \<Rightarrow> pystr" where
  "xml_newlines [] = []"
| "xml_newlines [c] = (if c = 13 then [10] else [c])"
| "xml_newlines (c # c' # s) =
     (if c = 13 then (if c' = 10 then 10 # xml_newlines s else 10 # xml_newlines (c' # s))
      else c # xml_newlines (c' # s))"

text \<open>\<open>toprettyxml(indent, encoding='utf-8')\<close>: the declaration, then one line per
  element; the text of an element is written between its tags, with \<open>&\<close>, \<open><\<close>,
  the double quote and \<open>>\<close> escaped.\<close>

definition write_data :: "pystr \<Rightarrow> pystr" where
  "write_data s = concat (map (\<lambda>c. if c = 38 then asc ''&amp;'' else if c = 60 then asc ''&lt;''
     else if c = 34 then asc ''&quot;'' else if c = 62 then asc ''&gt;'' else [c]) s)"

fun writexml :: "pystr \<Rightarrow> pystr \<Rightarrow> delem \<Rightarrow> pystr" where
  "writexml indent addindent (DElem name attrs text children) =
     indent @ asc ''<'' @ name
     @ concat (map (\<lambda>(k, v). asc '' '' @ k @ asc ''='' @ [34] @ write_data v @ [34]) attrs)
     @ (if children \<noteq> [] then
          asc ''>'' @ [10]
          @ concat (map (writexml (indent @ addindent) addindent) children)
          @ indent @ asc ''</'' @ name @ asc ''>'' @ [10]
        else if text \<noteq> [] then
          asc ''>'' @ write_data (xml_newlines text) @ asc ''</'' @ name @ asc ''>'' @ [10]
        else asc ''/>'' @ [10])"

fun add_decls :: "(pystr \<times> pystr) list \<Rightarrow> delem \<Rightarrow> delem" where
  "add_decls decls (DElem name attrs text children) = DElem name (decls @ attrs) text children"

definition tostring_pretty :: "(pystr \<times> pystr) list \<Rightarrow> xelem \<Rightarrow> pyerror + pystr" where
  "tostring_pretty reg root =
     (let nss = namespaces_of reg root;
          doc = add_decls (map xmlns_attr (sort_key snd nss)) (resolve nss root)
      in if list_all (list_all xml_char_ok) (elem_texts doc)
         then Inr (asc ''<?xml version='' @ [34] @ asc ''1.0'' @ [34] @ asc '' encoding='' @ [34]
                   @ asc ''utf-8'' @ [34] @ asc ''?>'' @ [10]
                   @ writexml [] (asc ''    '') doc)
         else Inl ExpatError)"

text \<open>The encoder of \<open>invoice_pdf_to_ksef_xml.py\<close>: it registers the three namespaces,
  reads the clock, builds the tree and serializes it.  The registry stays changed also
  when a lookup raises.\<close>

definition register_all :: "world \<Rightarrow> world" where
  "register_all w = w\<lparr>ns_map :=
     register_namespace (asc ''xsd'') namespace_xsd
       (register_namespace (asc ''xsi'') namespace_xsi
         (register_namespace [] namespace (ns_map w)))\<rparr>"

definition convert_to_ksef_xml :: "schema_type \<Rightarrow> pydict \<Rightarrow> world \<Rightarrow> (pyerror + pystr) \<times> world" where
  "convert_to_ksef_xml st d w =
     (let w1 = register_all w in
      (bind_err (build_faktura (variant_number st) (clock w1) d) (tostring_pretty (ns_map w1)), w1))"

text \<open>The encoder of \<open>ksef_xml_converter.py\<close>: the same statements, with the variant
  fixed to \<open>2\<close>.\<close>

definition legacy_convert_to_ksef_xml :: "pydict \<Rightarrow> world \<Rightarrow> (pyerror + pystr) \<times> world" where
  "legacy_convert_to_ksef_xml d w =
     (let w1 = register_all w in
      (bind_err (build_faktura (asc ''2'') (clock w1) d) (tostring_pretty (ns_map w1)), w1))"

section \<open>Validation, saving and the conversion of a PDF\<close>

text \<open>
  The converter object of \<open>invoice_pdf_to_ksef_xml.py\<close>.  Its collaborators are outside
  the repository and are taken as they answer: the XSD schema file (absent, or a
  judgement that gives the error message for an XML text that does not conform), and
  the AI client (absent, or the answer of the completion service decoded to a record,
  or a failure of the call or of the decoding).
\<close>

record converter =
  schema :: schema_type
  xsd :: "(pystr \<Rightarrow> pystr option) option"
  anthropic_client :: "(pystr \<Rightarrow> pyerror + pydict) option"

text \<open>\<open>validate_against_xsd\<close>: raises \<open>FileNotFoundError\<close> without a schema file,
  otherwise returns \<open>(is_valid, error_message)\<close>.\<close>

definition validate_against_xsd ::
  "converter \<Rightarrow> pystr \<Rightarrow> world \<Rightarrow> (pyerror + bool \<times> pystr option) \<times> world" where
  "validate_against_xsd conv xml_content w =
     (case xsd conv of
        None \<Rightarrow> (Inl FileNotFoundError, log_call CallValidate w)
      | Some judge \<Rightarrow> (Inr (judge xml_content = None, judge xml_content), log_call CallValidate w))"

text \<open>\<open>with open(output_path, 'w') as f: f.write(xml_content)\<close>\<close>

definition write_file :: "pystr \<Rightarrow> pystr \<Rightarrow> world \<Rightarrow> world" where
  "write_file path content w =
     log_call (CallWrite path) (w\<lparr>files := (files w)(path \<mapsto> content)\<rparr>)"

text \<open>\<open>save_ksef_xml(invoice_data, output_path, validate=True)\<close> of
  \<open>invoice_pdf_to_ksef_xml.py\<close>.\<close>

definition save_ksef_xml ::
  "converter \<Rightarrow> pydict \<Rightarrow> pystr \<Rightarrow> bool \<Rightarrow> world \<Rightarrow> (pyerror + unit) \<times> world" where
  "save_ksef_xml conv invoice_data output_path validate w =
     (case convert_to_ksef_xml (schema conv) invoice_data w of
        (Inl e, w1) \<Rightarrow> (Inl e, w1)
      | (Inr xml_content, w1) \<Rightarrow>
          if validate then
            (case validate_against_xsd conv xml_content w1 of
               (Inl e, w2) \<Rightarrow> (Inl e, w2)
             | (Inr (is_valid, error_message), w2) \<Rightarrow>
                 if \<not> is_valid then (Inl (ValueError ''XML validation failed''), w2)
                 else (Inr (), write_file output_path xml_content w2))
          else (Inr (), write_file output_path xml_content w1))"

text \<open>\<open>save_ksef_xml(invoice_data, output_path)\<close> of \<open>ksef_xml_converter.py\<close>.\<close>

definition legacy_save_ksef_xml :: "pydict \<Rightarrow> pystr \<Rightarrow> world \<Rightarrow> (pyerror + unit) \<times> world" where
  "legacy_save_ksef_xml invoice_data output_path w =
     (case legacy_convert_to_ksef_xml invoice_data w of
        (Inl e, w1) \<Rightarrow> (Inl e, w1)
      | (Inr xml_content, w1) \<Rightarrow> (Inr (), write_file output_path xml_content w1))"

text \<open>\<open>parse_invoice_from_text\<close>: without a client it raises \<open>ValueError\<close>; any failure
  of the call or of the decoding is raised again as a plain exception.\<close>

definition parse_invoice_from_text :: "converter \<Rightarrow> pystr \<Rightarrow> world \<Rightarrow> (pyerror + pydict) \<times> world" where
  "parse_invoice_from_text conv text w =
     (case anthropic_client conv of
        None \<Rightarrow> (Inl (ValueError ''Anthropic API key not configured''), w)
      | Some service \<Rightarrow>
          (case service text of
             Inl e \<Rightarrow> (Inl ServiceError, log_call CallAI w)
           | Inr invoice_data \<Rightarrow> (Inr invoice_data, log_call CallAI w)))"

text \<open>
  \<open>convert_pdf_to_ksef_xml(pdf_path, output_path=None, force_ai=False)\<close>.  The text
  extraction from the PDF is a collaborator: \<open>extract\<close> gives its outcome for a path.
  The second half of the function, from the encoding on, is \<open>encode_validate_save\<close>.
\<close>

definition encode_validate_save ::
  "converter \<Rightarrow> pydict \<Rightarrow> pystr option \<Rightarrow> world \<Rightarrow> (pyerror + pystr) \<times> world" where
  "encode_validate_save conv invoice_data output_path w =
     (case convert_to_ksef_xml (schema conv) invoice_data w of
        (Inl e, w1) \<Rightarrow> (Inl e, w1)
      | (Inr xml_content, w1) \<Rightarrow>
          (case validate_against_xsd conv xml_content w1 of
             (Inl e, w2) \<Rightarrow> (Inl e, w2)
           | (Inr (is_valid, error_message), w2) \<Rightarrow>
               if \<not> is_valid
               then (Inl (ValueError ''Generated XML does not conform to KSeF schema''), w2)
               else (case output_path of
                       None \<Rightarrow> (Inr xml_content, w2)
                     | Some path \<Rightarrow>
                         if path \<noteq> [] then (Inr xml_content, write_file path xml_content w2)
                         else (Inr xml_content, w2))))"

definition convert_pdf_to_ksef_xml ::
  "converter \<Rightarrow> (pystr \<Rightarrow> pyerror + pystr) \<Rightarrow> pystr \<Rightarrow> pystr option \<Rightarrow> bool \<Rightarrow> world
     \<Rightarrow> (pyerror + pystr) \<times> world" where
  "convert_pdf_to_ksef_xml conv extract pdf_path output_path force_ai w =
     (case extract pdf_path of
        Inl e \<Rightarrow> (Inl e, w)
      | Inr text \<Rightarrow>
          (case (if \<not> force_ai then
                   (case parse_invoice_with_rules text of
                      Inl e \<Rightarrow> (Inl e, log_call CallRules w)
                    | Inr (d, success) \<Rightarrow>
                        (Inr (if success then Some d else None), log_call CallRules w))
                 else (Inr None, w)) of
             (Inl e, w1) \<Rightarrow> (Inl e, w1)
           | (Inr (Some invoice_data), w1) \<Rightarrow> encode_validate_save conv invoice_data output_path w1
           | (Inr None, w1) \<Rightarrow>
               (case anthropic_client conv of
                  None \<Rightarrow>
                    (Inl (ValueError
                       ''Rule-based parsing failed and Claude AI is not configured''), w1)
                | Some service \<Rightarrow>
                    (case parse_invoice_from_text conv text w1 of
                       (Inl e, w2) \<Rightarrow> (Inl e, w2)
                     | (Inr invoice_data, w2) \<Rightarrow>
                         encode_validate_save conv invoice_data output_path w2))))"

text \<open>The calls a run adds to those made before.\<close>

definition new_calls :: "world \<Rightarrow> world \<Rightarrow> event list" where
  "new_calls w w' = drop (length (calls w)) (calls w')"

text \<open>The keys the encoder reads with \<open>invoice_data[k]\<close>, in the order in which it
  reads them.\<close>

definition encoder_keys :: "string list" where
  "encoder_keys = [''seller_tax_no'', ''seller_name'', ''seller_street'', ''buyer_tax_no'',
     ''buyer_name'', ''buyer_street'', ''buyer_post_code'', ''buyer_city'', ''currency'',
     ''issue_date'', ''number'', ''price_net'', ''price_tax'', ''price_gross'']"

section \<open>Sample inputs\<close>

text \<open>A complete invoice record, two worlds with the same clock and different
  registries, and a converter with a schema that accepts nothing.\<close>

definition sample_invoice :: pydict where
  "sample_invoice = map_of
     [(''seller_name'', asc ''ACME''), (''seller_tax_no'', asc ''1111111111''),
      (''seller_street'', asc ''ul. Testowa 1''), (''seller_country'', asc ''PL''),
      (''buyer_name'', asc ''XYZ TRADING''), (''buyer_tax_no'', asc ''2222222222''),
      (''buyer_street'', asc ''ul. Nowa 5''), (''buyer_post_code'', asc ''00-950''),
      (''buyer_city'', asc ''Warszawa''), (''buyer_country'', asc ''PL''),
      (''currency'', asc ''PLN''), (''issue_date'', asc ''2025-04-02''),
      (''number'', asc ''1/4/2025''), (''price_net'', asc ''200.0''),
      (''price_tax'', asc ''46.0''), (''price_gross'', asc ''246.0'')]"

definition sample_world :: world where
  "sample_world = \<lparr>clock = asc ''2025-04-02T10:00:00'', ns_map = [], files = Map.empty,
     calls = []\<rparr>"

definition other_world :: world where
  "other_world = \<lparr>clock = asc ''2025-04-02T10:00:00'',
     ns_map = [(namespace, asc ''k''), (asc ''urn:x'', [])], files = Map.empty,
     calls = [CallWrite (asc ''a.xml'')]\<rparr>"

definition strict_converter :: converter where
  "strict_converter = \<lparr>schema = FA2, xsd = Some (\<lambda>xml. Some (asc ''Line 1: invalid'')),
     anthropic_client = None\<rparr>"

section \<open>Verification\<close>

subsection \<open>Equations for evaluation\<close>

text \<open>
  Closed instances are evaluated with the code equations.  These equations compute
  the character tests faster: the ASCII range first, and the three letter and digit
  ranges of the patterns without running through the range.
\<close>

lemma to_lower_ascii [code]:
  "to_lower c =
     (if c < 128 then (if 65 \<le> c \<and> c \<le> 90 then c + 32 else c)
      else if 192 \<le> c \<and> c \<le> 222 \<and> c \<noteq> 215 then c + 32
      else if c = 304 then 105
      else if c = 376 then 255
      else if (256 \<le> c \<and> c \<le> 303 \<or> 306 \<le> c \<and> c \<le> 311 \<or> 330 \<le> c \<and> c \<le> 375) \<and> even c
        then c + 1
      else if (313 \<le> c \<and> c \<le> 328 \<or> 377 \<le> c \<and> c \<le> 382) \<and> odd c then c + 1
      else if c = 8490 then 107
      else if c = 8491 then 229
      else c)"
  by (simp add: to_lower_def)

lemma is_space_ascii [code]:
  "is_space c =
     (if c < 128 then (9 \<le> c \<and> c \<le> 13) \<or> (28 \<le> c \<and> c \<le> 32)
      else c = 133 \<or> c = 160 \<or> c = 5760 \<or> (8192 \<le> c \<and> c \<le> 8202) \<or> c = 8232
        \<or> c = 8233 \<or> c = 8239 \<or> c = 8287 \<or> c = 12288)"
  by (auto simp: is_space_def)

lemma is_digit_ascii: "c < 128 \<Longrightarrow> is_digit c \<longleftrightarrow> 48 \<le> c \<and> c \<le> 57"
  by (auto simp: is_digit_def digit_ranges_def)

lemma is_digit_code [code]:
  "is_digit c =
     (if c < 128 then 48 \<le> c \<and> c \<le> 57
      else list_ex (\<lambda>(a, b). a \<le> c \<and> c \<le> b) digit_ranges)"
  by (simp add: is_digit_ascii) (simp add: is_digit_def)

lemma to_lower_upper_ascii: "65 \<le> p \<Longrightarrow> p \<le> 90 \<Longrightarrow> to_lower p = p + 32"
  by (simp add: to_lower_def)

lemma to_lower_lower_ascii: "p < 65 \<or> 90 < p \<Longrightarrow> p < 128 \<Longrightarrow> to_lower p = p"
  by (auto simp: to_lower_def)

lemma list_ex_upt: "list_ex P [a..<Suc b] \<longleftrightarrow> (\<exists>p. a \<le> p \<and> p \<le> b \<and> P p)"
  by (auto simp: list_ex_iff)

lemma range_upper_ic:
  "list_ex (\<lambda>p. ic_eq p c) [65..<Suc 90] \<longleftrightarrow>
     (let x = to_lower c in (97 \<le> x \<and> x \<le> 122) \<or> x = 305 \<or> x = 383)"
proof -
  have "list_ex (\<lambda>p. ic_eq p c) [65..<Suc 90] \<longleftrightarrow> (\<exists>p. 65 \<le> p \<and> p \<le> 90 \<and> ic_eq p c)"
    by (rule list_ex_upt)
  also have "\<dots> \<longleftrightarrow> (\<exists>p. 65 \<le> p \<and> p \<le> 90 \<and>
      (to_lower c = p + 32 \<or> to_lower c \<in> set (ic_fixes (p + 32))))"
    by (auto simp: ic_eq_def Let_def to_lower_upper_ascii)
  also have "\<dots> \<longleftrightarrow> (97 \<le> to_lower c \<and> to_lower c \<le> 122) \<or> to_lower c = 305 \<or> to_lower c = 383"
  proof
    assume "\<exists>p. 65 \<le> p \<and> p \<le> 90 \<and> (to_lower c = p + 32 \<or> to_lower c \<in> set (ic_fixes (p + 32)))"
    then show "(97 \<le> to_lower c \<and> to_lower c \<le> 122) \<or> to_lower c = 305 \<or> to_lower c = 383"
      by (auto simp: ic_fixes_def split: if_splits)
  next
    assume r: "(97 \<le> to_lower c \<and> to_lower c \<le> 122) \<or> to_lower c = 305 \<or> to_lower c = 383"
    then consider "97 \<le> to_lower c \<and> to_lower c \<le> 122" | "to_lower c = 305" | "to_lower c = 383"
      by blast
    then show "\<exists>p. 65 \<le> p \<and> p \<le> 90 \<and> (to_lower c = p + 32 \<or> to_lower c \<in> set (ic_fixes (p + 32)))"
    proof cases
      case 1
      then show ?thesis by (intro exI[of _ "to_lower c - 32"]) auto
    next
      case 2
      then show ?thesis by (intro exI[of _ 73]) (simp add: ic_fixes_def)
    next
      case 3
      then show ?thesis by (intro exI[of _ 83]) (simp add: ic_fixes_def)
    qed
  qed
  finally show ?thesis by (simp add: Let_def)
qed

lemma range_lower_ic:
  "list_ex (\<lambda>p. ic_eq p c) [97..<Suc 122] \<longleftrightarrow>
     (let x = to_lower c in (97 \<le> x \<and> x \<le> 122) \<or> x = 305 \<or> x = 383)"
proof -
  have "list_ex (\<lambda>p. ic_eq p c) [97..<Suc 122] \<longleftrightarrow> (\<exists>p. 97 \<le> p \<and> p \<le> 122 \<and> ic_eq p c)"
    by (rule list_ex_upt)
  also have "\<dots> \<longleftrightarrow> (\<exists>p. 97 \<le> p \<and> p \<le> 122 \<and>
      (to_lower c = p \<or> to_lower c \<in> set (ic_fixes p)))"
    by (auto simp: ic_eq_def Let_def to_lower_lower_ascii)
  also have "\<dots> \<longleftrightarrow> (97 \<le> to_lower c \<and> to_lower c \<le> 122) \<or> to_lower c = 305 \<or> to_lower c = 383"
  proof
    assume "\<exists>p. 97 \<le> p \<and> p \<le> 122 \<and> (to_lower c = p \<or> to_lower c \<in> set (ic_fixes p))"
    then show "(97 \<le> to_lower c \<and> to_lower c \<le> 122) \<or> to_lower c = 305 \<or> to_lower c = 383"
      by (auto simp: ic_fixes_def split: if_splits)
  next
    assume r: "(97 \<le> to_lower c \<and> to_lower c \<le> 122) \<or> to_lower c = 305 \<or> to_lower c = 383"
    then consider "97 \<le> to_lower c \<and> to_lower c \<le> 122" | "to_lower c = 305" | "to_lower c = 383"
      by blast
    then show "\<exists>p. 97 \<le> p \<and> p \<le> 122 \<and> (to_lower c = p \<or> to_lower c \<in> set (ic_fixes p))"
    proof cases
      case 1
      then show ?thesis by (intro exI[of _ "to_lower c"]) auto
    next
      case 2
      then show ?thesis by (intro exI[of _ 105]) (simp add: ic_fixes_def)
    next
      case 3
      then show ?thesis by (intro exI[of _ 115]) (simp add: ic_fixes_def)
    qed
  qed
  finally show ?thesis by (simp add: Let_def)
qed

lemma range_digit_ic:
  "list_ex (\<lambda>p. ic_eq p c) [48..<Suc 57] \<longleftrightarrow> (let x = to_lower c in 48 \<le> x \<and> x \<le> 57)"
proof -
  have "list_ex (\<lambda>p. ic_eq p c) [48..<Suc 57] \<longleftrightarrow> (\<exists>p. 48 \<le> p \<and> p \<le> 57 \<and> ic_eq p c)"
    by (rule list_ex_upt)
  also have "\<dots> \<longleftrightarrow> (\<exists>p. 48 \<le> p \<and> p \<le> 57 \<and> to_lower c = p)"
    by (auto simp: ic_eq_def Let_def to_lower_lower_ascii ic_fixes_def)
  also have "\<dots> \<longleftrightarrow> 48 \<le> to_lower c \<and> to_lower c \<le> 57"
    by auto
  finally show ?thesis by (simp add: Let_def)
qed

lemma item_has_code [code]:
  "item_has ic (CChar p) c = (if ic then ic_eq p c else c = p)"
  "item_has ic (CRange a b) c =
     (if ic then
        (if a = 65 \<and> b = 90 \<or> a = 97 \<and> b = 122
         then (let x = to_lower c in (97 \<le> x \<and> x \<le> 122) \<or> x = 305 \<or> x = 383)
         else if a = 48 \<and> b = 57 then (let x = to_lower c in 48 \<le> x \<and> x \<le> 57)
         else list_ex (\<lambda>p. ic_eq p c) [a..<Suc b])
      else a \<le> c \<and> c \<le> b)"
  "item_has ic CDigit c = is_digit c"
  "item_has ic CSpace c = is_space c"
  using range_upper_ic[of c] range_lower_ic[of c] range_digit_ic[of c]
  by (auto simp: Let_def)

subsection \<open>The cascade never raises\<close>

lemma py_split_by_nonempty: "py_split_by sep s \<noteq> []"
  by (induction s) (auto split: list.splits)

lemma length_py_split_by: "length (py_split_by sep s) = Suc (length (filter sep s))"
  by (induction s) (auto split: list.splits simp: py_split_by_nonempty)

lemma ms_Sym_Cat:
  "ms ic (Cat (Sym cs) r) (n, s, g) \<noteq> [] \<Longrightarrow>
     \<exists>c t. s = c # t \<and> in_cset ic cs c \<and> ms ic r (Suc n, t, g) \<noteq> []"
  by (cases s) (auto split: if_splits)

lemma ms_Sym_last:
  "ms ic (Sym cs) (n, s, g) \<noteq> [] \<Longrightarrow> \<exists>c t. s = c # t \<and> in_cset ic cs c"
  by (cases s) (auto split: if_splits)

lemma concat_map_concat_map:
  "concat (map f (concat (map g xs))) = concat (map (\<lambda>x. concat (map f (g x))) xs)"
  by (induction xs) auto

lemma ms_Cat_assoc: "ms ic (Cat (Cat a b) c) st = ms ic (Cat a (Cat b c)) st"
proof -
  have "ms ic (Cat b c) = (\<lambda>x. concat (map (ms ic c) (ms ic b x)))"
    by (rule ext) simp
  then show ?thesis by (simp add: concat_map_concat_map)
qed

lemma ms_digits2_Cat:
  assumes "ms ic (Cat digits2 r) (n, s, g) \<noteq> []"
  shows "\<exists>c0 c1 t. s = c0 # c1 # t \<and> ms ic r (Suc (Suc n), t, g) \<noteq> []"
proof -
  have "ms ic (Cat (Sym (Pos [CDigit])) (Cat (Sym (Pos [CDigit])) r)) (n, s, g) \<noteq> []"
    using assms[unfolded digits2_def digit_def ms_Cat_assoc] .
  then obtain c0 t0 where 0: "s = c0 # t0"
    and n0: "ms ic (Cat (Sym (Pos [CDigit])) r) (Suc n, t0, g) \<noteq> []"
    using ms_Sym_Cat by blast
  from n0 obtain c1 t1 where "t0 = c1 # t1" "ms ic r (Suc (Suc n), t1, g) \<noteq> []"
    using ms_Sym_Cat by blast
  with 0 show ?thesis by blast
qed

lemma rx_dmy_seps:
  assumes "rx_match False rx_dmy s = Some m"
  shows "\<exists>c0 c1 c2 c3 c4 c5 t. s = c0 # c1 # c2 # c3 # c4 # c5 # t
     \<and> in_cset False cls_date_sep c2 \<and> in_cset False cls_date_sep c5"
proof -
  from assms have ne0: "ms False rx_dmy (0, s, []) \<noteq> []"
    by (auto simp: rx_match_def split: list.splits)
  have shape: "rx_dmy = Cat digits2 (Cat (Sym cls_date_sep) (Cat digits2
      (Cat (Sym cls_date_sep) (Cat digits4 Eps))))"
    by (simp add: rx_dmy_def seq_def)
  have ne: "ms False (Cat digits2 (Cat (Sym cls_date_sep) (Cat digits2
      (Cat (Sym cls_date_sep) (Cat digits4 Eps))))) (0, s, []) \<noteq> []"
    using ne0 unfolding shape .
  from ms_digits2_Cat[OF ne] obtain c0 c1 t1 where 1: "s = c0 # c1 # t1"
    and n1: "ms False (Cat (Sym cls_date_sep) (Cat digits2
      (Cat (Sym cls_date_sep) (Cat digits4 Eps)))) (Suc (Suc 0), t1, []) \<noteq> []"
    by blast
  from n1 obtain c2 t2 where 2: "t1 = c2 # t2" "in_cset False cls_date_sep c2"
    and n2: "ms False (Cat digits2 (Cat (Sym cls_date_sep) (Cat digits4 Eps)))
      (Suc (Suc (Suc 0)), t2, []) \<noteq> []"
    using ms_Sym_Cat by blast
  from ms_digits2_Cat[OF n2] obtain c3 c4 t4 where 4: "t2 = c3 # c4 # t4"
    and n4: "ms False (Cat (Sym cls_date_sep) (Cat digits4 Eps))
      (Suc (Suc (Suc (Suc (Suc 0)))), t4, []) \<noteq> []"
    by blast
  from n4 obtain c5 t5 where 5: "t4 = c5 # t5" "in_cset False cls_date_sep c5"
    using ms_Sym_Cat by blast
  from 1 2 4 5 show ?thesis by blast
qed

lemma date_of_match_total: "\<exists>v. date_of_match r m = Inr v"
proof (cases "ngroups r = 3")
  case True
  then show ?thesis by (simp add: date_of_match_def Let_def)
next
  case False
  show ?thesis
  proof (cases "rx_match False rx_dmy (grp m 1)")
    case None
    with False show ?thesis by (simp add: date_of_match_def Let_def)
  next
    case (Some a)
    from rx_dmy_seps[OF Some] obtain c0 c1 c2 c3 c4 c5 t where
      s: "grp m 1 = c0 # c1 # c2 # c3 # c4 # c5 # t" and
      seps: "in_cset False cls_date_sep c2" "in_cset False cls_date_sep c5" by blast
    have "length (py_split_by (in_cset False cls_date_sep) (grp m 1)) \<ge> 3"
      unfolding length_py_split_by s using seps by simp
    then obtain p0 p1 p2 ps where "py_split_by (in_cset False cls_date_sep) (grp m 1) = p0 # p1 # p2 # ps"
      by (metis Suc_le_length_iff numeral_3_eq_3)
    with False Some show ?thesis by (simp add: date_of_match_def Let_def)
  qed
qed

lemma date_step_total: "\<exists>d'. date_step text d = Inr d'"
proof (cases "first_search True date_patterns text")
  case None
  then show ?thesis by (simp add: date_step_def)
next
  case (Some rm)
  obtain r m where rm: "rm = (r, m)" by (cases rm)
  from date_of_match_total obtain v where "date_of_match r m = Inr v" by blast
  with Some rm show ?thesis by (simp add: date_step_def)
qed

lemma rule_cascade_total: "\<exists>d. rule_cascade text = Inr d"
proof -
  from date_step_total obtain d' where
    "date_step text (number_step text (nip_step text init_invoice_data)) = Inr d'" by blast
  then show ?thesis by (simp add: rule_cascade_def)
qed

subsection \<open>Which step writes which field\<close>

lemma nip_step_other:
  "k \<noteq> ''seller_tax_no'' \<Longrightarrow> k \<noteq> ''buyer_tax_no'' \<Longrightarrow> nip_step text d k = d k"
  by (simp add: nip_step_def split: list.splits)

lemma number_step_other: "k \<noteq> ''number'' \<Longrightarrow> number_step text d k = d k"
  by (simp add: number_step_def split: option.splits prod.splits)

lemma date_step_other: "date_step text d = Inr d' \<Longrightarrow> k \<noteq> ''issue_date'' \<Longrightarrow> d' k = d k"
  by (auto simp: date_step_def split: option.splits prod.splits sum.splits)

lemma amount_one_other: "k \<noteq> snd pf \<Longrightarrow> amount_one text d pf k = d k"
  by (simp add: amount_one_def split: list.splits)

lemma foldl_amount_one_other:
  "k \<notin> snd ` set ps \<Longrightarrow> foldl (amount_one text) d ps k = d k"
  by (induction ps arbitrary: d) (auto simp: amount_one_other)

lemma amount_step_other:
  "k \<noteq> ''price_net'' \<Longrightarrow> k \<noteq> ''price_tax'' \<Longrightarrow> k \<noteq> ''price_gross'' \<Longrightarrow>
   amount_step text d k = d k"
  unfolding amount_step_def
  by (rule foldl_amount_one_other) (auto simp: amount_patterns_def)

lemma seller_name_pl_other: "k \<noteq> ''seller_name'' \<Longrightarrow> seller_name_pl text d k = d k"
  by (simp add: seller_name_pl_def split: option.splits)

lemma seller_name_eng_other:
  "k \<noteq> ''seller_name'' \<Longrightarrow> k \<noteq> ''seller_street'' \<Longrightarrow> seller_name_eng text d k = d k"
  by (simp add: seller_name_eng_def split: option.splits)

lemma buyer_name_pl_other: "k \<noteq> ''buyer_name'' \<Longrightarrow> buyer_name_pl text d k = d k"
  by (simp add: buyer_name_pl_def split: option.splits)

lemma buyer_name_eng_other: "k \<noteq> ''buyer_name'' \<Longrightarrow> buyer_name_eng text d k = d k"
  by (simp add: buyer_name_eng_def split: option.splits)

lemma names_step_other:
  "k \<noteq> ''seller_name'' \<Longrightarrow> k \<noteq> ''seller_street'' \<Longrightarrow> k \<noteq> ''buyer_name'' \<Longrightarrow>
   names_step text d k = d k"
  by (simp add: names_step_def seller_name_pl_other seller_name_eng_other buyer_name_pl_other
      buyer_name_eng_other)

lemma streets_pl_other:
  "k \<noteq> ''seller_street'' \<Longrightarrow> k \<noteq> ''buyer_street'' \<Longrightarrow> streets_pl text d k = d k"
proof (cases "re_findall True street_pattern text")
  case Nil
  then show ?thesis by (simp add: streets_pl_def)
next
  case (Cons m0 rest)
  assume k: "k \<noteq> ''seller_street''" "k \<noteq> ''buyer_street''"
  show ?thesis
  proof (cases rest)
    case Nil
    with Cons k show ?thesis by (simp add: streets_pl_def)
  next
    case (Cons m1 rest')
    with \<open>re_findall True street_pattern text = m0 # rest\<close> k show ?thesis
      by (simp add: streets_pl_def)
  qed
qed

lemma seller_street_eng_other:
  "k \<noteq> ''seller_street'' \<Longrightarrow> seller_street_eng text d k = d k"
  by (simp add: seller_street_eng_def split: option.splits)

lemma buyer_street_eng_other:
  "k \<noteq> ''buyer_street'' \<Longrightarrow> buyer_street_eng text d k = d k"
  by (simp add: buyer_street_eng_def split: option.splits)

lemma address_step_other:
  "k \<noteq> ''seller_street'' \<Longrightarrow> k \<noteq> ''buyer_street'' \<Longrightarrow> address_step text d k = d k"
  by (simp add: address_step_def streets_pl_other seller_street_eng_other
      buyer_street_eng_other)

lemma postal_step_other:
  "k \<noteq> ''buyer_post_code'' \<Longrightarrow> k \<noteq> ''buyer_city'' \<Longrightarrow> postal_step text d k = d k"
proof (cases "re_findall False postal_pattern text")
  case Nil
  then show ?thesis by (simp add: postal_step_def)
next
  case (Cons m0 rest)
  assume k: "k \<noteq> ''buyer_post_code''" "k \<noteq> ''buyer_city''"
  show ?thesis
  proof (cases rest)
    case Nil
    with Cons k show ?thesis by (simp add: postal_step_def)
  next
    case (Cons m1 rest')
    with \<open>re_findall False postal_pattern text = m0 # rest\<close> k show ?thesis
      by (simp add: postal_step_def)
  qed
qed

lemma rule_cascade_split:
  "rule_cascade text = Inr d \<Longrightarrow>
   \<exists>d'. date_step text (number_step text (nip_step text init_invoice_data)) = Inr d'
      \<and> d = postal_step text (address_step text (names_step text (amount_step text d')))"
  by (auto simp: rule_cascade_def split: sum.splits)

lemma pre_postal_untouched:
  assumes "date_step text (number_step text (nip_step text init_invoice_data)) = Inr d'"
    and "k \<notin> {''seller_tax_no'', ''buyer_tax_no'', ''number'', ''issue_date'', ''price_net'',
      ''price_tax'', ''price_gross'', ''seller_name'', ''seller_street'', ''buyer_name'',
      ''buyer_street''}"
  shows "address_step text (names_step text (amount_step text d')) k = init_invoice_data k"
proof -
  have "address_step text (names_step text (amount_step text d')) k = d' k"
    using assms(2) by (simp add: address_step_other names_step_other amount_step_other)
  also have "d' k = number_step text (nip_step text init_invoice_data) k"
    using date_step_other[OF assms(1)] assms(2) by simp
  also have "\<dots> = init_invoice_data k"
    using assms(2) by (simp add: number_step_other nip_step_other)
  finally show ?thesis .
qed

subsection \<open>Reading fields off the cascade\<close>

lemma cascade_field_Inr: "rule_cascade text = Inr d \<Longrightarrow> cascade_field text k = d k"
  by (simp add: cascade_field_def)

lemma first_search_append:
  "first_search ic (as @ bs) text =
     (case first_search ic as text of Some x \<Rightarrow> Some x | None \<Rightarrow> first_search ic bs text)"
  by (induction as) (auto split: option.splits)

lemma re_search_skip_prefix:
  "(\<forall>i<length pre. rx_match ic r (drop i (pre @ c # rest)) = None) \<Longrightarrow>
   re_search ic r (pre @ c # rest) = re_search ic r (c # rest)"
proof (induction pre)
  case Nil
  then show ?case by simp
next
  case (Cons a pre)
  from Cons.prems have "rx_match ic r (a # pre @ c # rest) = None" by fastforce
  moreover have "\<forall>i<length pre. rx_match ic r (drop i (pre @ c # rest)) = None"
  proof (intro allI impI)
    fix i assume "i < length pre"
    then have "Suc i < length (a # pre)" by simp
    with Cons.prems have "rx_match ic r (drop (Suc i) ((a # pre) @ c # rest)) = None" by blast
    then show "rx_match ic r (drop i (pre @ c # rest)) = None" by simp
  qed
  ultimately show ?case using Cons.IH by simp
qed

text \<open>The issue date is decided by the date patterns alone.\<close>

lemma cascade_issue_date:
  "cascade_field text ''issue_date'' =
     (case first_search True date_patterns text of
        None \<Rightarrow> Some []
      | Some (r, m) \<Rightarrow> (case date_of_match r m of Inl e \<Rightarrow> None | Inr v \<Rightarrow> Some v))"
proof -
  from rule_cascade_total obtain d where d: "rule_cascade text = Inr d" by blast
  from rule_cascade_split[OF d] obtain d' where
    pre: "date_step text (number_step text (nip_step text init_invoice_data)) = Inr d'"
    and post: "d = postal_step text (address_step text (names_step text (amount_step text d')))"
    by blast
  have "d ''issue_date'' = d' ''issue_date''"
    unfolding post
    by (simp add: postal_step_other address_step_other names_step_other amount_step_other)
  moreover have "number_step text (nip_step text init_invoice_data) ''issue_date'' = Some []"
    by (simp add: number_step_other nip_step_other init_invoice_data_def)
  ultimately show ?thesis
    using pre d
    by (auto simp: cascade_field_def date_step_def split: option.splits sum.splits prod.splits)
qed

subsection \<open>Dates\<close>

lemmas rx_defs = seq_def lit_def rx_chr_def rx_plus_def digit_def digits2_def digits3_def
  digits4_def digits10_def cls_space_def cls_colon_space_def cls_not_nl_def cls_digit_def

lemmas chr_defs = ic_eq_def to_lower_def ic_fixes_def is_space_def is_digit_ascii

lemma dmy_pattern_matches_needle:
  "rx_match True (seq [rx_data_wystawienia, Grp 1 rx_dmy])
     (asc ''Data wystawienia: 02.04.2025'' @ post) =
   Some (asc ''Data wystawienia: 02.04.2025'', post, [(1, asc ''02.04.2025'')])"
  by (simp add: rx_defs chr_defs rx_match_def rx_data_wystawienia_def rx_dmy_def
      cls_date_sep_def asc_def)

lemma date_of_dmy_match:
  "date_of_match (seq [rx_data_wystawienia, Grp 1 rx_dmy])
     (asc ''Data wystawienia: 02.04.2025'', post, [(1, asc ''02.04.2025'')]) =
   Inr (asc ''2025-04-02'')"
  by (simp add: date_of_match_def rx_defs chr_defs rx_match_def rx_data_wystawienia_def
      rx_dmy_def cls_date_sep_def asc_def grp_def)

lemma date_patterns_split:
  "date_patterns = take 3 date_patterns @ seq [rx_data_wystawienia, Grp 1 rx_dmy] # drop 4 date_patterns"
  by (simp add: date_patterns_def)

text \<open>
  Claim C7, as stated, fails: a text that contains \<open>Data wystawienia: 02.04.2025\<close> after
  an English date line gets the English date, since the English pattern comes first
  in the list and the loop stops at the first pattern that matches.
\<close>

theorem issue_date_needle_counterexample:
  "py_contains (asc ''Data wystawienia: 02.04.2025'')
     (asc ''DATE 1 May 2024 Data wystawienia: 02.04.2025'')
   \<and> cascade_field (asc ''DATE 1 May 2024 Data wystawienia: 02.04.2025'') ''issue_date''
       = Some (asc ''2024-05-01'')"
  unfolding cascade_issue_date by code_simp

text \<open>
  Claim C7, amended: when none of the three date patterns of higher priority matches
  anywhere in the text, and no match of the pattern
  \<^verbatim>\<open>Data\s+wystawienia[:\s]*(\d{2}[-/.]\d{2}[-/.]\d{4})\<close> starts before the occurrence of
  \<open>Data wystawienia: 02.04.2025\<close>, the cascade sets \<open>issue_date\<close> to \<open>2025-04-02\<close>.
\<close>

theorem issue_date_needle_normalized:
  assumes "text = pre @ asc ''Data wystawienia: 02.04.2025'' @ post"
    and "first_search True (take 3 date_patterns) text = None"
    and "\<forall>i<length pre. rx_match True (seq [rx_data_wystawienia, Grp 1 rx_dmy]) (drop i text) = None"
  shows "cascade_field text ''issue_date'' = Some (asc ''2025-04-02'')"
proof -
  let ?p = "seq [rx_data_wystawienia, Grp 1 rx_dmy]"
  obtain c rest where needle: "asc ''Data wystawienia: 02.04.2025'' @ post = c # rest"
    by (simp add: asc_def)
  have "re_search True ?p text = re_search True ?p (c # rest)"
    using assms(3) unfolding assms(1) needle by (rule re_search_skip_prefix)
  also have "\<dots> = Some (asc ''Data wystawienia: 02.04.2025'', post, [(1, asc ''02.04.2025'')])"
    using dmy_pattern_matches_needle[of post] unfolding needle by simp
  finally have s: "re_search True ?p text =
    Some (asc ''Data wystawienia: 02.04.2025'', post, [(1, asc ''02.04.2025'')])" .
  have "first_search True date_patterns text =
    Some (?p, asc ''Data wystawienia: 02.04.2025'', post, [(1, asc ''02.04.2025'')])"
    by (subst date_patterns_split)
      (simp only: first_search_append assms(2) first_search.simps s option.case)
  then show ?thesis
    by (simp only: cascade_issue_date date_of_dmy_match option.case prod.case sum.case)
qed

theorem issue_date_needle_normalized_witness:
  "cascade_field (asc ''Faktura'' @ asc ''Data wystawienia: 02.04.2025'' @ asc '' VAT'')
     ''issue_date'' = Some (asc ''2025-04-02'')"
proof (rule issue_date_needle_normalized)
  show "asc ''Faktura'' @ asc ''Data wystawienia: 02.04.2025'' @ asc '' VAT'' =
    asc ''Faktura'' @ asc ''Data wystawienia: 02.04.2025'' @ asc '' VAT''" ..
  show "first_search True (take 3 date_patterns)
    (asc ''Faktura'' @ asc ''Data wystawienia: 02.04.2025'' @ asc '' VAT'') = None"
    by code_simp
  show "\<forall>i<length (asc ''Faktura'').
    rx_match True (seq [rx_data_wystawienia, Grp 1 rx_dmy])
      (drop i (asc ''Faktura'' @ asc ''Data wystawienia: 02.04.2025'' @ asc '' VAT'')) = None"
    by code_simp
qed

subsection \<open>Postal code and city\<close>

text \<open>
  Claim C10: when the text has exactly one match of the postal pattern, the cascade
  assigns it to the buyer (\<open>buyer_post_code\<close>, \<open>buyer_city\<close>), whether or not the
  text has a \<open>Bill To\<close> anchor: the guard also holds when \<open>buyer_post_code\<close> is still
  empty, and nothing writes it before.  The record has no \<open>seller_post_code\<close> and no
  \<open>seller_city\<close> key.
\<close>

theorem single_postal_match_assigned_to_buyer:
  assumes "re_findall False postal_pattern text = [m]"
  shows "cascade_field text ''buyer_post_code'' = Some (grp m 1)
     \<and> cascade_field text ''buyer_city'' = Some (py_rstrip_chr 44 (py_strip (grp m 2)))
     \<and> cascade_field text ''seller_post_code'' = None
     \<and> cascade_field text ''seller_city'' = None"
proof -
  from rule_cascade_total obtain d where d: "rule_cascade text = Inr d" by blast
  from rule_cascade_split[OF d] obtain d' where
    pre: "date_step text (number_step text (nip_step text init_invoice_data)) = Inr d'"
    and post: "d = postal_step text (address_step text (names_step text (amount_step text d')))"
    by blast
  let ?p = "address_step text (names_step text (amount_step text d'))"
  have e: "?p ''buyer_post_code'' = Some []"
    using pre_postal_untouched[OF pre, of "''buyer_post_code''"]
    by (simp add: init_invoice_data_def)
  have n1: "?p ''seller_post_code'' = None"
    using pre_postal_untouched[OF pre, of "''seller_post_code''"]
    by (simp add: init_invoice_data_def)
  have n2: "?p ''seller_city'' = None"
    using pre_postal_untouched[OF pre, of "''seller_city''"]
    by (simp add: init_invoice_data_def)
  have "field_empty ?p ''buyer_post_code''"
    using e by (simp add: field_empty_def dict_get_def)
  with assms post n1 n2 have
    "d ''buyer_post_code'' = Some (grp m 1)"
    "d ''buyer_city'' = Some (py_rstrip_chr 44 (py_strip (grp m 2)))"
    "d ''seller_post_code'' = None" "d ''seller_city'' = None"
    by (simp_all add: postal_step_def)
  with d show ?thesis by (simp add: cascade_field_def)
qed

theorem single_postal_match_assigned_to_buyer_witness:
  "cascade_field (asc ''00-950 Warszawa'') ''buyer_post_code'' = Some (asc ''00-950'')
   \<and> cascade_field (asc ''00-950 Warszawa'') ''buyer_city'' = Some (asc ''Warszawa'')
   \<and> cascade_field (asc ''00-950 Warszawa'') ''seller_post_code'' = None
   \<and> cascade_field (asc ''00-950 Warszawa'') ''seller_city'' = None"
proof -
  let ?m = "(asc ''00-950 Warszawa'', [], [(2, asc ''Warszawa''), (1, asc ''00-950'')])"
  have f: "re_findall False postal_pattern (asc ''00-950 Warszawa'') = [?m]"
    by code_simp
  have g: "grp ?m 1 = asc ''00-950''" "py_rstrip_chr 44 (py_strip (grp ?m 2)) = asc ''Warszawa''"
    by code_simp+
  from single_postal_match_assigned_to_buyer[OF f] show ?thesis
    unfolding g .
qed

subsection \<open>The completeness gate\<close>

lemma parse_Inr_cascade:
  "parse_invoice_with_rules text = Inr (d, ok) \<Longrightarrow> rule_cascade text = Inr d"
  by (auto simp: parse_invoice_with_rules_def split: sum.splits if_splits)

lemma parse_ok_of_cascade:
  "rule_cascade text = Inr d \<Longrightarrow> parse_ok text = Some (missing_fields d = [])"
  by (simp add: parse_ok_def parse_invoice_with_rules_def)

lemma complete_text_fields:
  "(case rule_cascade complete_text of Inl e \<Rightarrow> [] | Inr d \<Rightarrow> map d required_fields) =
     [Some (asc ''A''), Some (asc ''1111111111''), Some (asc ''B''), Some (asc ''2222222222''),
      Some (asc ''1/2/3''), Some (asc ''2024-05-01''), Some (asc ''1.00''), Some (asc ''2.00''),
      Some (asc ''3.00'')]"
  by code_simp

lemma seller_zero_text_fields:
  "(case rule_cascade seller_zero_text of Inl e \<Rightarrow> [] | Inr d \<Rightarrow> map d required_fields) =
     [Some (asc ''0.00''), Some (asc ''1111111111''), Some (asc ''B''), Some (asc ''2222222222''),
      Some (asc ''1/2/3''), Some (asc ''2024-05-01''), Some (asc ''1.00''), Some (asc ''2.00''),
      Some (asc ''3.00'')]"
  by code_simp

lemma asc_neq [simp]:
  "asc ''A'' \<noteq> asc ''0.00''" "asc ''B'' \<noteq> asc ''0.00''" "asc ''1111111111'' \<noteq> asc ''0.00''"
  "asc ''2222222222'' \<noteq> asc ''0.00''" "asc ''1/2/3'' \<noteq> asc ''0.00''"
  "asc ''2024-05-01'' \<noteq> asc ''0.00''" "asc ''1.00'' \<noteq> asc ''0.00''"
  "asc ''2.00'' \<noteq> asc ''0.00''" "asc ''3.00'' \<noteq> asc ''0.00''"
  "asc ''A'' \<noteq> []" "asc ''B'' \<noteq> []" "asc ''1111111111'' \<noteq> []" "asc ''2222222222'' \<noteq> []"
  "asc ''1/2/3'' \<noteq> []" "asc ''2024-05-01'' \<noteq> []" "asc ''1.00'' \<noteq> []" "asc ''2.00'' \<noteq> []"
  "asc ''3.00'' \<noteq> []" "asc ''0.00'' \<noteq> []"
  by (simp_all add: asc_def)

lemma parse_ok_complete_text: "parse_ok complete_text = Some True"
proof -
  from complete_text_fields obtain d where d: "rule_cascade complete_text = Inr d"
    and v: "map d required_fields =
     [Some (asc ''A''), Some (asc ''1111111111''), Some (asc ''B''), Some (asc ''2222222222''),
      Some (asc ''1/2/3''), Some (asc ''2024-05-01''), Some (asc ''1.00''), Some (asc ''2.00''),
      Some (asc ''3.00'')]"
    by (cases "rule_cascade complete_text") simp_all
  from v have "missing_fields d = []"
    by (simp add: missing_fields_def required_fields_def field_missing_def)
  with parse_ok_of_cascade[OF d] show ?thesis by simp
qed

text \<open>
  Claim C3, as stated, fails in the direction from the fields to success: the gate
  compares every required field with \<open>0.00\<close>, although only the three prices start
  at \<open>0.00\<close> and the other six start empty.  On a complete invoice text whose seller
  line reads \<open>0.00\<close> all nine fields are non-empty and none has its initial value,
  and the parser reports failure.
\<close>

theorem gate_rejects_seller_named_zero:
  "parse_ok seller_zero_text = Some False
   \<and> cascade_field seller_zero_text ''seller_name'' = Some (asc ''0.00'')
   \<and> cascade_field seller_zero_text ''seller_tax_no'' = Some (asc ''1111111111'')
   \<and> cascade_field seller_zero_text ''buyer_name'' = Some (asc ''B'')
   \<and> cascade_field seller_zero_text ''buyer_tax_no'' = Some (asc ''2222222222'')
   \<and> cascade_field seller_zero_text ''number'' = Some (asc ''1/2/3'')
   \<and> cascade_field seller_zero_text ''issue_date'' = Some (asc ''2024-05-01'')
   \<and> cascade_field seller_zero_text ''price_net'' = Some (asc ''1.00'')
   \<and> cascade_field seller_zero_text ''price_tax'' = Some (asc ''2.00'')
   \<and> cascade_field seller_zero_text ''price_gross'' = Some (asc ''3.00'')"
proof -
  from seller_zero_text_fields obtain d where d: "rule_cascade seller_zero_text = Inr d"
    and v: "map d required_fields =
     [Some (asc ''0.00''), Some (asc ''1111111111''), Some (asc ''B''), Some (asc ''2222222222''),
      Some (asc ''1/2/3''), Some (asc ''2024-05-01''), Some (asc ''1.00''), Some (asc ''2.00''),
      Some (asc ''3.00'')]"
    by (cases "rule_cascade seller_zero_text") simp_all
  from v have "missing_fields d \<noteq> []"
    by (simp add: missing_fields_def required_fields_def field_missing_def)
  with parse_ok_of_cascade[OF d] have "parse_ok seller_zero_text = Some False" by simp
  with v d show ?thesis
    by (simp add: cascade_field_def required_fields_def)
qed

text \<open>
  Claim C3, amended: for every text the rule-based parser returns (it never raises),
  and it reports success exactly when each of the nine required fields is present,
  non-empty and different from the string \<open>0.00\<close>, the test the code applies to every
  required field and not to the prices alone; otherwise it reports failure, with the
  partly filled record.
\<close>

theorem parse_success_iff_complete:
  "\<exists>d. parse_invoice_with_rules text =
     Inr (d, \<forall>f \<in> {''seller_name'', ''seller_tax_no'', ''buyer_name'', ''buyer_tax_no'',
                   ''number'', ''issue_date'', ''price_net'', ''price_tax'', ''price_gross''}.
               \<exists>v. d f = Some v \<and> v \<noteq> [] \<and> v \<noteq> asc ''0.00'')"
proof -
  from rule_cascade_total obtain d where d: "rule_cascade text = Inr d" by blast
  have "missing_fields d = [] \<longleftrightarrow> (\<forall>f \<in> set required_fields. \<not> field_missing d f)"
    by (simp add: missing_fields_def filter_empty_conv)
  also have "\<dots> \<longleftrightarrow> (\<forall>f \<in> {''seller_name'', ''seller_tax_no'', ''buyer_name'', ''buyer_tax_no'',
            ''number'', ''issue_date'', ''price_net'', ''price_tax'', ''price_gross''}.
          \<exists>v. d f = Some v \<and> v \<noteq> [] \<and> v \<noteq> asc ''0.00'')"
    by (simp add: required_fields_def field_missing_def split: option.splits)
  finally have "missing_fields d = [] \<longleftrightarrow> (\<forall>f \<in> {''seller_name'', ''seller_tax_no'',
            ''buyer_name'', ''buyer_tax_no'',
            ''number'', ''issue_date'', ''price_net'', ''price_tax'', ''price_gross''}.
          \<exists>v. d f = Some v \<and> v \<noteq> [] \<and> v \<noteq> asc ''0.00'')" .
  with d show ?thesis
    by (simp add: parse_invoice_with_rules_def)
qed

theorem parse_success_iff_complete_witness:
  "parse_ok complete_text = Some True
   \<and> parse_ok (asc ''NIP 1234567890'') = Some False
   \<and> cascade_field (asc ''NIP 1234567890'') ''seller_tax_no'' = Some (asc ''1234567890'')"
proof -
  let ?S = "{''seller_name'', ''seller_tax_no'', ''buyer_name'', ''buyer_tax_no'',
     ''number'', ''issue_date'', ''price_net'', ''price_tax'', ''price_gross''}"
  from parse_success_iff_complete[of complete_text] obtain d where
    p: "parse_invoice_with_rules complete_text =
     Inr (d, \<forall>f \<in> ?S. \<exists>v. d f = Some v \<and> v \<noteq> [] \<and> v \<noteq> asc ''0.00'')" by blast
  from parse_Inr_cascade[OF p] have c: "rule_cascade complete_text = Inr d" .
  with complete_text_fields have "map d required_fields =
     [Some (asc ''A''), Some (asc ''1111111111''), Some (asc ''B''), Some (asc ''2222222222''),
      Some (asc ''1/2/3''), Some (asc ''2024-05-01''), Some (asc ''1.00''), Some (asc ''2.00''),
      Some (asc ''3.00'')]" by simp
  then have "\<forall>f \<in> ?S. \<exists>v. d f = Some v \<and> v \<noteq> [] \<and> v \<noteq> asc ''0.00''"
    by (simp add: required_fields_def)
  with p have "parse_invoice_with_rules complete_text = Inr (d, True)" by simp
  then have 1: "parse_ok complete_text = Some True" by (simp add: parse_ok_def)
  let ?t = "asc ''NIP 1234567890''"
  from parse_success_iff_complete[of ?t] obtain d' where
    p': "parse_invoice_with_rules ?t =
     Inr (d', \<forall>f \<in> ?S. \<exists>v. d' f = Some v \<and> v \<noteq> [] \<and> v \<noteq> asc ''0.00'')" by blast
  have e: "cascade_field ?t ''buyer_name'' = Some []"
    "cascade_field ?t ''seller_tax_no'' = Some (asc ''1234567890'')"
    by code_simp+
  from parse_Inr_cascade[OF p'] have c': "rule_cascade ?t = Inr d'" .
  from e(1) c' have "d' ''buyer_name'' = Some []" by (simp add: cascade_field_def)
  then have "\<not> (\<forall>f \<in> ?S. \<exists>v. d' f = Some v \<and> v \<noteq> [] \<and> v \<noteq> asc ''0.00'')" by simp
  with p' have "parse_invoice_with_rules ?t = Inr (d', False)" by simp
  then have "parse_ok ?t = Some False" by (simp add: parse_ok_def)
  with 1 e(2) show ?thesis by simp
qed

subsection \<open>Amounts\<close>

text \<open>
  Claim C6 asks that a Polish amount with a decimal comma comes out with the comma read
  as the decimal point.  The code removes every comma before it looks for a decimal
  point, so on \<open>Netto: 1234,56\<close> it stores \<open>123456.00\<close>, not \<open>1234.56\<close>.
\<close>

theorem decimal_comma_is_dropped:
  "cascade_field (asc ''Netto: 1234,56'') ''price_net'' = Some (asc ''123456.00'')"
  by code_simp

subsection \<open>The encoder reads the registry only for two prefixes\<close>

lemma namespace_distinct:
  "namespace \<noteq> namespace_xsi" "namespace \<noteq> namespace_xsd" "namespace_xsi \<noteq> namespace_xsd"
  "namespace_xsi \<noteq> namespace" "namespace_xsd \<noteq> namespace" "namespace_xsd \<noteq> namespace_xsi"
  by (simp_all add: namespace_def namespace_xsi_def namespace_xsd_def asc_def)

text \<open>An entry is \<open>settled\<close> in a registry when the URI has an entry and every entry of
  the URI carries that prefix.\<close>

definition settled :: "pystr \<Rightarrow> pystr \<Rightarrow> (pystr \<times> pystr) list \<Rightarrow> bool" where
  "settled uri p m \<longleftrightarrow> (uri, p) \<in> set m \<and> (\<forall>(k, v) \<in> set m. k = uri \<longrightarrow> v = p)"

lemma settled_map_of: "settled uri p m \<Longrightarrow> map_of m uri = Some p"
proof -
  assume s: "settled uri p m"
  then obtain v where v: "map_of m uri = Some v"
    by (metis settled_def weak_map_of_SomeI)
  then have "(uri, v) \<in> set m" by (rule map_of_SomeD)
  with s have "v = p" by (auto simp: settled_def)
  with v show ?thesis by simp
qed

lemma register_settles: "settled uri p (register_namespace p uri m)"
  by (auto simp: settled_def register_namespace_def)

lemma register_keeps:
  "settled uri p m \<Longrightarrow> uri \<noteq> uri' \<Longrightarrow> p \<noteq> p' \<Longrightarrow> settled uri p (register_namespace p' uri' m)"
  by (auto simp: settled_def register_namespace_def)

lemma registered_prefixes:
  "map_of (ns_map (register_all w)) namespace = Some []"
  "map_of (ns_map (register_all w)) namespace_xsi = Some (asc ''xsi'')"
proof -
  let ?r1 = "register_namespace [] namespace (ns_map w)"
  let ?r2 = "register_namespace (asc ''xsi'') namespace_xsi ?r1"
  let ?r3 = "register_namespace (asc ''xsd'') namespace_xsd ?r2"
  have "settled namespace [] ?r1" by (rule register_settles)
  then have "settled namespace [] ?r2"
    by (rule register_keeps) (simp_all add: namespace_distinct asc_def)
  then have a: "settled namespace [] ?r3"
    by (rule register_keeps) (simp_all add: namespace_distinct asc_def)
  have "settled namespace_xsi (asc ''xsi'') ?r2" by (rule register_settles)
  then have b: "settled namespace_xsi (asc ''xsi'') ?r3"
    by (rule register_keeps) (simp_all add: namespace_distinct asc_def)
  from a show "map_of (ns_map (register_all w)) namespace = Some []"
    by (simp add: register_all_def settled_map_of)
  from b show "map_of (ns_map (register_all w)) namespace_xsi = Some (asc ''xsi'')"
    by (simp add: register_all_def settled_map_of)
qed

definition std_nss :: "(pystr \<times> pystr) list" where
  "std_nss = [(namespace, []), (namespace_xsi, asc ''xsi'')]"

lemma foldl_prefix_of_known:
  "set us \<subseteq> fst ` set found \<Longrightarrow> foldl (prefix_of reg) found us = found"
proof (induction us)
  case Nil
  then show ?case by simp
next
  case (Cons u us)
  then have "u \<in> fst ` set found" by simp
  then obtain p where "map_of found u = Some p"
    by (metis domD domI dom_map_of_conv_image_fst)
  then have "prefix_of reg found u = found" by (simp add: prefix_of_def)
  with Cons show ?case by simp
qed

lemma namespaces_of_registered:
  assumes "map_of reg namespace = Some []" "map_of reg namespace_xsi = Some (asc ''xsi'')"
    and "elem_uris root = namespace # namespace_xsi # us" "set us \<subseteq> {namespace, namespace_xsi}"
  shows "namespaces_of reg root = std_nss"
proof -
  have 1: "prefix_of reg [] namespace = [(namespace, [])]"
    using assms(1) by (simp add: prefix_of_def)
  have 2: "prefix_of reg [(namespace, [])] namespace_xsi = std_nss"
    using assms(2) namespace_distinct by (simp add: prefix_of_def std_nss_def)
  have "foldl (prefix_of reg) std_nss us = std_nss"
    by (rule foldl_prefix_of_known) (use assms(4) in \<open>auto simp: std_nss_def\<close>)
  with 1 2 show ?thesis by (simp add: namespaces_of_def assms(3))
qed

lemma bind_err_Inr: "bind_err r f = Inr y \<Longrightarrow> \<exists>v. r = Inr v \<and> f v = Inr y"
  by (cases r) (simp_all add: bind_err_def)

lemma build_faktura_uris:
  assumes "build_faktura v now d = Inr root"
  shows "\<exists>us. elem_uris root = namespace # namespace_xsi # us \<and> set us \<subseteq> {namespace, namespace_xsi}"
proof -
  from assms obtain a1 a2 a3 a4 a5 a6 a7 a8 a9 a10 a11 a12 a13 a14 a15 a16 r where
    "Inr root = (Inr r :: pyerror + xelem)" and
    "elem_uris r = namespace # namespace_xsi # tl (tl (elem_uris r))" and
    "set (tl (tl (elem_uris r))) \<subseteq> {namespace, namespace_xsi}"
    unfolding build_faktura_def
    by (auto dest!: bind_err_Inr simp: leaf_def node_def)
  then show ?thesis by auto
qed

lemma tostring_pretty_registered:
  assumes "build_faktura v now d = Inr root"
  shows "tostring_pretty (ns_map (register_all w)) root = tostring_pretty std_nss root"
proof -
  from build_faktura_uris[OF assms] obtain us where
    us: "elem_uris root = namespace # namespace_xsi # us" "set us \<subseteq> {namespace, namespace_xsi}"
    by blast
  have "namespaces_of (ns_map (register_all w)) root = std_nss"
    using registered_prefixes us by (rule namespaces_of_registered)
  moreover have "namespaces_of std_nss root = std_nss"
    by (rule namespaces_of_registered[OF _ _ us])
      (simp_all add: std_nss_def namespace_distinct)
  ultimately show ?thesis by (simp add: tostring_pretty_def)
qed

text \<open>The encoding depends on the world through the clock alone.\<close>

lemma convert_fst:
  "fst (convert_to_ksef_xml st d w) =
     bind_err (build_faktura (variant_number st) (clock w) d) (tostring_pretty std_nss)"
proof (cases "build_faktura (variant_number st) (clock w) d")
  case (Inl e)
  then show ?thesis
    by (simp add: convert_to_ksef_xml_def Let_def bind_err_def register_all_def)
next
  case (Inr root)
  then show ?thesis
    using tostring_pretty_registered[OF Inr, of w]
    by (simp add: convert_to_ksef_xml_def Let_def bind_err_def register_all_def)
qed

lemma convert_snd: "snd (convert_to_ksef_xml st d w) = register_all w"
  by (simp add: convert_to_ksef_xml_def Let_def)

lemma register_all_fields [simp]:
  "clock (register_all w) = clock w" "files (register_all w) = files w"
  "calls (register_all w) = calls w"
  by (simp_all add: register_all_def)

text \<open>
  Claim C8: with the clock held, the encoder returns the same XML text for the same
  record whatever the rest of the world is (the namespace registry, the files, the
  calls made), so in particular when it is called a second time after the first call
  has changed the registry.
\<close>

theorem encode_twice_identical:
  "(clock w' = clock w \<longrightarrow>
      fst (convert_to_ksef_xml st d w') = fst (convert_to_ksef_xml st d w))
   \<and> fst (convert_to_ksef_xml st d (snd (convert_to_ksef_xml st d w)))
       = fst (convert_to_ksef_xml st d w)"
  by (simp add: convert_fst convert_snd)

theorem encode_twice_identical_witness:
  "fst (convert_to_ksef_xml FA2 sample_invoice other_world)
     = fst (convert_to_ksef_xml FA2 sample_invoice sample_world)
   \<and> (case fst (convert_to_ksef_xml FA2 sample_invoice sample_world) of
        Inl e \<Rightarrow> False | Inr xml_text \<Rightarrow> True)"
proof -
  have "clock other_world = clock sample_world"
    by (simp add: other_world_def sample_world_def)
  with encode_twice_identical[of other_world sample_world FA2 sample_invoice]
  have "fst (convert_to_ksef_xml FA2 sample_invoice other_world)
     = fst (convert_to_ksef_xml FA2 sample_invoice sample_world)" by blast
  moreover have "case fst (convert_to_ksef_xml FA2 sample_invoice sample_world) of
        Inl e \<Rightarrow> False | Inr xml_text \<Rightarrow> True"
    by code_simp
  ultimately show ?thesis by simp
qed

end
